theory Spec2Isabelle
  imports Complex_Main "HOL-Library.Word"
begin

section \<open>Data model\<close>

text \<open>
  The development embeds the dispatch logic of \<open>src/gpu/GrDrawContext.cpp\<close>.

  \<open>SkScalar\<close> is a 32-bit float in the source. A scalar is the real number it denotes;
  infinities and NaN are outside the model. Where a branch is decided by comparing a computed
  difference with a threshold (the margins of the nested-rect test), the difference is rounded
  to single precision, see \<open>SkScalar_round\<close>; the coordinates that are only handed on to a
  batch are computed exactly.
  \<open>GrColor\<close> is a \<open>uint32_t\<close>.
\<close>

type_synonym SkScalar = real
type_synonym GrColor = "32 word"

record SkPoint =
  fX :: SkScalar
  fY :: SkScalar

record SkRect =
  fLeft :: SkScalar
  fTop :: SkScalar
  fRight :: SkScalar
  fBottom :: SkScalar

record SkIRect =
  iLeft :: int
  iTop :: int
  iRight :: int
  iBottom :: int

record SkRRect =
  rrBounds :: SkRect
  rrRadiusX :: SkScalar
  rrRadiusY :: SkScalar

text \<open>\<open>SkMatrix\<close>: the nine scalars of the source's \<open>fMat\<close>. Its algebra (\<open>invert\<close>,
  \<open>mapRect\<close>, \<open>rectStaysRect\<close>, ...) lives in \<open>SkMatrix.cpp\<close>, which is not part of the
  sources at hand; those queries are parameters (see \<open>Env\<close>).\<close>

datatype SkMatrix = SkMatrix "SkScalar list"

definition SkMatrix_I :: SkMatrix where
  "SkMatrix_I = SkMatrix [1, 0, 0, 0, 1, 0, 0, 0, 1]"

datatype GrClip = GrNoClip | GrClipStack nat

datatype SkXfermodeMode = kSrc_Mode | kSrcOver_Mode

datatype SkRegionOp = kDifference_Op | kIntersect_Op | kUnion_Op | kXOR_Op
  | kReverseDifference_Op | kReplace_Op

datatype GrPrimitiveEdgeType = kFillBW_GrProcessorEdgeType | kFillAA_GrProcessorEdgeType
  | kInverseFillBW_GrProcessorEdgeType | kInverseFillAA_GrProcessorEdgeType

datatype GrXPFactory = NoXPFactory | PorterDuffXPFactory SkXfermodeMode
  | DisableColorXPFactory | CoverageSetOpXPFactory SkRegionOp bool

datatype GrFragmentProcessor = GrRRectEffect GrPrimitiveEdgeType SkRRect | OtherProcessor nat

record GrPaint =
  getColor :: GrColor
  isAntiAlias :: bool
  getXPFactory :: GrXPFactory
  coverageFragmentProcessors :: "GrFragmentProcessor list"
  colorFragmentProcessors :: "GrFragmentProcessor list"

text \<open>The default-constructed \<open>GrPaint\<close>: opaque white, no antialiasing, no processors.\<close>

definition GrPaint_default :: GrPaint where
  "GrPaint_default = \<lparr> getColor = 0xFFFFFFFF, isAntiAlias = False, getXPFactory = NoXPFactory,
     coverageFragmentProcessors = [], colorFragmentProcessors = [] \<rparr>"

datatype SkStrokeRec_Style = kHairline_Style | kFill_Style | kStroke_Style | kStrokeAndFill_Style

datatype SkPaint_Join = kMiter_Join | kRound_Join | kBevel_Join

datatype SkPaint_Cap = kButt_Cap | kRound_Cap | kSquare_Cap

record SkStrokeRec =
  getStyle :: SkStrokeRec_Style
  getWidth :: SkScalar
  getJoin :: SkPaint_Join
  getCap :: SkPaint_Cap

record GrStyle =
  strokeRec :: SkStrokeRec
  pathEffect :: "nat option"

text \<open>Modelled from the spec: \<open>GrStyle.h\<close> is not among the sources. A ShapeStyle is a
  "fill-or-stroke-or-hairline kind, stroke width, join/cap kind, and an optional path effect";
  the simple fill is the fill kind with no path effect, and a style "applies" when a path effect
  or a stroke expansion is still pending.\<close>

definition GrStyle_SimpleFill :: GrStyle where
  "GrStyle_SimpleFill = \<lparr> strokeRec = \<lparr> getStyle = kFill_Style, getWidth = -1,
       getJoin = kMiter_Join, getCap = kButt_Cap \<rparr>, pathEffect = None \<rparr>"

definition isFillStyle :: "SkStrokeRec \<Rightarrow> bool" where
  "isFillStyle stroke = (getStyle stroke = kFill_Style)"

definition isSimpleFill :: "GrStyle \<Rightarrow> bool" where
  "isSimpleFill style = (isFillStyle (strokeRec style) \<and> pathEffect style = None)"

definition applies :: "GrStyle \<Rightarrow> bool" where
  "applies style = (pathEffect style \<noteq> None \<or>
     (getStyle (strokeRec style) \<noteq> kFill_Style \<and> getStyle (strokeRec style) \<noteq> kHairline_Style))"

subsection \<open>Paths and shapes\<close>

text \<open>A path is the list of contours added to it, its fill type and its volatility flag.
  \<open>isEmpty\<close> is "no verbs"; every \<open>addRect\<close>/\<open>addRRect\<close>/\<open>addOval\<close> adds verbs.
  The geometric classifications (\<open>isConvex\<close>, \<open>isNestedFillRects\<close>, \<open>isOval\<close>) are
  parameters.\<close>

datatype SkPath_FillType = kWinding_FillType | kEvenOdd_FillType
  | kInverseWinding_FillType | kInverseEvenOdd_FillType

datatype SkPath_Direction = kCW_Direction | kCCW_Direction

datatype Contour = RectContour SkRect SkPath_Direction | RRectContour SkRRect
  | OvalContour SkRect | OtherContour nat

record SkPath =
  contours :: "Contour list"
  getFillType :: SkPath_FillType
  isVolatile :: bool

definition SkPath_new :: SkPath where
  "SkPath_new = \<lparr> contours = [], getFillType = kWinding_FillType, isVolatile = False \<rparr>"

definition setIsVolatile :: "bool \<Rightarrow> SkPath \<Rightarrow> SkPath" where
  "setIsVolatile v path = path\<lparr> isVolatile := v \<rparr>"

definition addRect :: "SkRect \<Rightarrow> SkPath \<Rightarrow> SkPath" where
  "addRect rect path = path\<lparr> contours := contours path @ [RectContour rect kCW_Direction] \<rparr>"

definition addRRect :: "SkRRect \<Rightarrow> SkPath \<Rightarrow> SkPath" where
  "addRRect rrect path = path\<lparr> contours := contours path @ [RRectContour rrect] \<rparr>"

definition addOval :: "SkRect \<Rightarrow> SkPath \<Rightarrow> SkPath" where
  "addOval oval path = path\<lparr> contours := contours path @ [OvalContour oval] \<rparr>"

definition setFillType :: "SkPath_FillType \<Rightarrow> SkPath \<Rightarrow> SkPath" where
  "setFillType ft path = path\<lparr> getFillType := ft \<rparr>"

definition SkPath_isEmpty :: "SkPath \<Rightarrow> bool" where
  "SkPath_isEmpty path = (contours path = [])"

definition isInverseFillType :: "SkPath \<Rightarrow> bool" where
  "isInverseFillType path =
     (getFillType path = kInverseWinding_FillType \<or> getFillType path = kInverseEvenOdd_FillType)"

record GrShape =
  shapePath :: SkPath
  shapeStyle :: GrStyle

definition GrShape_make :: "SkPath \<Rightarrow> GrStyle \<Rightarrow> GrShape" where
  "GrShape_make path style = \<lparr> shapePath = path, shapeStyle = style \<rparr>"

datatype GrStyle_Apply = kPathEffectOnly | kPathEffectAndStrokeRec

datatype DrawType = kColor_DrawType | kColorAntiAlias_DrawType

record CanDrawPathArgs =
  cdViewMatrix :: SkMatrix
  cdShape :: GrShape
  cdAntiAlias :: bool
  cdHasUserStencilSettings :: bool
  cdIsStencilBufferMSAA :: bool

record DrawPathArgs =
  dpPaint :: GrPaint
  dpUserStencilSettings :: "nat option"
  dpClip :: GrClip
  dpViewMatrix :: SkMatrix
  dpShape :: GrShape
  dpAntiAlias :: bool

subsection \<open>Rect arithmetic\<close>

text \<open>Modelled from the spec: \<open>SkRect.h\<close> is not among the sources. \<open>clear\<close> substitutes the
  whole-target rect when the rect "covers the whole target", otherwise it "intersects rect with
  target bounds; if empty, no-op"; the filled-rect path "crops the rect against the clip's
  conservative device bounds". An empty rect (no area) neither contains nor intersects
  anything.\<close>

definition SkIRect_MakeWH :: "int \<Rightarrow> int \<Rightarrow> SkIRect" where
  "SkIRect_MakeWH w h = \<lparr> iLeft = 0, iTop = 0, iRight = w, iBottom = h \<rparr>"

definition SkIRect_isEmpty :: "SkIRect \<Rightarrow> bool" where
  "SkIRect_isEmpty r = (iLeft r \<ge> iRight r \<or> iTop r \<ge> iBottom r)"

definition SkIRect_contains :: "SkIRect \<Rightarrow> SkIRect \<Rightarrow> bool" where
  "SkIRect_contains a r = (\<not> SkIRect_isEmpty r \<and> \<not> SkIRect_isEmpty a \<and>
     iLeft a \<le> iLeft r \<and> iTop a \<le> iTop r \<and> iRight a \<ge> iRight r \<and> iBottom a \<ge> iBottom r)"

definition SkIRect_intersect :: "SkIRect \<Rightarrow> SkIRect \<Rightarrow> SkIRect option" where
  "SkIRect_intersect a r =
     (if iLeft r < iRight r \<and> iTop r < iBottom r \<and> \<not> SkIRect_isEmpty a \<and>
         iLeft a < iRight r \<and> iLeft r < iRight a \<and> iTop a < iBottom r \<and> iTop r < iBottom a
      then Some \<lparr> iLeft = max (iLeft a) (iLeft r), iTop = max (iTop a) (iTop r),
                  iRight = min (iRight a) (iRight r), iBottom = min (iBottom a) (iBottom r) \<rparr>
      else None)"

definition SkRect_Make :: "SkIRect \<Rightarrow> SkRect" where
  "SkRect_Make r = \<lparr> fLeft = real_of_int (iLeft r), fTop = real_of_int (iTop r),
     fRight = real_of_int (iRight r), fBottom = real_of_int (iBottom r) \<rparr>"

definition SkRect_MakeLTRB :: "SkScalar \<Rightarrow> SkScalar \<Rightarrow> SkScalar \<Rightarrow> SkScalar \<Rightarrow> SkRect" where
  "SkRect_MakeLTRB l t r b = \<lparr> fLeft = l, fTop = t, fRight = r, fBottom = b \<rparr>"

definition width :: "SkRect \<Rightarrow> SkScalar" where
  "width r = fRight r - fLeft r"

definition height :: "SkRect \<Rightarrow> SkScalar" where
  "height r = fBottom r - fTop r"

definition SkRect_isEmpty :: "SkRect \<Rightarrow> bool" where
  "SkRect_isEmpty r = (fLeft r \<ge> fRight r \<or> fTop r \<ge> fBottom r)"

definition SkRect_intersects :: "SkRect \<Rightarrow> SkRect \<Rightarrow> bool" where
  "SkRect_intersects a r = (\<not> SkRect_isEmpty r \<and> \<not> SkRect_isEmpty a \<and>
     fLeft a < fRight r \<and> fLeft r < fRight a \<and> fTop a < fBottom r \<and> fTop r < fBottom a)"

definition SkRect_intersect :: "SkRect \<Rightarrow> SkRect \<Rightarrow> SkRect option" where
  "SkRect_intersect a r =
     (if fLeft r < fRight r \<and> fTop r < fBottom r \<and> \<not> SkRect_isEmpty a \<and>
         fLeft a < fRight r \<and> fLeft r < fRight a \<and> fTop a < fBottom r \<and> fTop r < fBottom a
      then Some \<lparr> fLeft = max (fLeft a) (fLeft r), fTop = max (fTop a) (fTop r),
                  fRight = min (fRight a) (fRight r), fBottom = min (fBottom a) (fBottom r) \<rparr>
      else None)"

definition makeOutset :: "SkRect \<Rightarrow> SkScalar \<Rightarrow> SkScalar \<Rightarrow> SkRect" where
  "makeOutset r dx dy = \<lparr> fLeft = fLeft r - dx, fTop = fTop r - dy,
     fRight = fRight r + dx, fBottom = fBottom r + dy \<rparr>"

definition SkRRect_MakeRectXY :: "SkRect \<Rightarrow> SkScalar \<Rightarrow> SkScalar \<Rightarrow> SkRRect" where
  "SkRRect_MakeRectXY rect rx ry = \<lparr> rrBounds = rect, rrRadiusX = rx, rrRadiusY = ry \<rparr>"

definition SkRRect_isEmpty :: "SkRRect \<Rightarrow> bool" where
  "SkRRect_isEmpty rr = SkRect_isEmpty (rrBounds rr)"


section \<open>Collaborators\<close>

text \<open>Everything the draw context asks of code that is not among the sources at hand is a
  parameter, collected in \<open>Env\<close>: the backend capabilities, the render target, the matrix,
  clip and path queries, the instanced renderer, the batch factories and the path renderer chain.
  A factory whose result the source tests for null is a predicate "makes a batch"; the batch it
  makes is represented by the factory's arguments.\<close>

record GrCaps =
  fullClearIsFree :: bool
  useDrawInsteadOfClear :: bool

record GrRenderTarget =
  rtWidth :: int
  rtHeight :: int
  isUnifiedMultisampled :: bool
  isStencilBufferMultisampled :: bool

record SkMatrixOps =
  invert :: "SkMatrix \<Rightarrow> SkMatrix option"
  rectStaysRect :: "SkMatrix \<Rightarrow> bool"
  preservesRightAngles :: "SkMatrix \<Rightarrow> bool"
  hasPerspective :: "SkMatrix \<Rightarrow> bool"
  isIdentity :: "SkMatrix \<Rightarrow> bool"
  mapRect :: "SkMatrix \<Rightarrow> SkRect \<Rightarrow> SkRect"
  mapRectToQuad :: "SkMatrix \<Rightarrow> SkRect \<Rightarrow> SkPoint \<times> SkPoint \<times> SkPoint \<times> SkPoint"
  MatrixToScaleFactor :: "SkMatrix \<Rightarrow> SkScalar"

record GrClipOps =
  quickContains :: "GrClip \<Rightarrow> SkRect \<Rightarrow> bool"
  getConservativeBounds :: "GrClip \<Rightarrow> int \<Rightarrow> int \<Rightarrow> SkIRect"

text \<open>The instanced renderer's \<open>recordX\<close> calls: \<open>None\<close> is a null batch, \<open>Some hw\<close> a batch
  together with the value written to \<open>useHWAA\<close>.\<close>

record InstancedRendering =
  recordRect :: "SkRect \<Rightarrow> SkMatrix \<Rightarrow> GrColor \<Rightarrow> bool \<Rightarrow> bool option"
  recordRectLocalRect :: "SkRect \<Rightarrow> SkMatrix \<Rightarrow> GrColor \<Rightarrow> SkRect \<Rightarrow> bool \<Rightarrow> bool option"
  recordRectLocalMatrix :: "SkRect \<Rightarrow> SkMatrix \<Rightarrow> GrColor \<Rightarrow> SkMatrix \<Rightarrow> bool \<Rightarrow> bool option"
  recordOval :: "SkRect \<Rightarrow> SkMatrix \<Rightarrow> GrColor \<Rightarrow> bool \<Rightarrow> bool option"
  recordRRect :: "SkRRect \<Rightarrow> SkMatrix \<Rightarrow> GrColor \<Rightarrow> bool \<Rightarrow> bool option"
  recordDRRect :: "SkRRect \<Rightarrow> SkRRect \<Rightarrow> SkMatrix \<Rightarrow> GrColor \<Rightarrow> bool \<Rightarrow> bool option"

record BatchFactories =
  makesAAFill :: "GrColor \<Rightarrow> SkMatrix \<Rightarrow> SkRect \<Rightarrow> SkRect \<Rightarrow> bool"
  makesAAFillWithLocalRect :: "GrColor \<Rightarrow> SkMatrix \<Rightarrow> SkRect \<Rightarrow> SkRect \<Rightarrow> bool"
  makesAAStroke :: "GrColor \<Rightarrow> SkMatrix \<Rightarrow> SkRect \<Rightarrow> SkStrokeRec \<Rightarrow> bool"
  makesNonAAStroke :: "GrColor \<Rightarrow> SkMatrix \<Rightarrow> SkRect \<Rightarrow> SkStrokeRec \<Rightarrow> bool \<Rightarrow> bool"
  makesAAFillNestedRects :: "GrColor \<Rightarrow> SkMatrix \<Rightarrow> SkRect \<Rightarrow> SkRect \<Rightarrow> bool"
  makesOvalBatch :: "GrColor \<Rightarrow> SkMatrix \<Rightarrow> SkRect \<Rightarrow> SkStrokeRec \<Rightarrow> bool"
  makesRRectBatch :: "GrColor \<Rightarrow> SkMatrix \<Rightarrow> SkRRect \<Rightarrow> SkStrokeRec \<Rightarrow> bool"
  makesRRectEffect :: "GrPrimitiveEdgeType \<Rightarrow> SkRRect \<Rightarrow> bool"
  transformRRect :: "SkRRect \<Rightarrow> SkMatrix \<Rightarrow> SkRRect option"

record SkPathOps =
  isConvex :: "SkPath \<Rightarrow> bool"
  isNestedFillRects :: "SkPath \<Rightarrow> ((SkRect \<times> SkRect) \<times> (SkPath_Direction \<times> SkPath_Direction)) option"
  isOval :: "SkPath \<Rightarrow> SkRect option"
  shapeIsEmpty :: "GrShape \<Rightarrow> bool"
  applyStyle :: "GrShape \<Rightarrow> GrStyle_Apply \<Rightarrow> SkScalar \<Rightarrow> GrShape"

record Env =
  caps :: GrCaps
  fRenderTarget :: GrRenderTarget
  matrixOps :: SkMatrixOps
  clipOps :: GrClipOps
  isConstantBlendedColor :: "GrPaint \<Rightarrow> GrColor option"
  instancedRendering :: "InstancedRendering option"
  factories :: BatchFactories
  pathOps :: SkPathOps
  getPathRenderer :: "CanDrawPathArgs \<Rightarrow> bool \<Rightarrow> DrawType \<Rightarrow> nat option"
  setBoundsCheck :: "SkPoint list \<Rightarrow> SkRect option"
  targetCopySurface :: "nat \<Rightarrow> SkIRect \<Rightarrow> int \<times> int \<Rightarrow> bool"

section \<open>Batches, pipeline state and the draw target\<close>

datatype GrPrimitiveType = kTriangles_GrPrimitiveType | kTriangleStrip_GrPrimitiveType
  | kTriangleFan_GrPrimitiveType | kPoints_GrPrimitiveType | kLines_GrPrimitiveType
  | kLineStrip_GrPrimitiveType

definition GrIsPrimTypeLines :: "GrPrimitiveType \<Rightarrow> bool" where
  "GrIsPrimTypeLines t = (t = kLines_GrPrimitiveType \<or> t = kLineStrip_GrPrimitiveType)"

datatype GrBatch =
    GrClearBatch SkIRect GrColor
  | InstancedRectBatch SkRect SkMatrix GrColor bool
  | InstancedRectLocalRectBatch SkRect SkMatrix GrColor SkRect bool
  | InstancedRectLocalMatrixBatch SkRect SkMatrix GrColor SkMatrix bool
  | InstancedOvalBatch SkRect SkMatrix GrColor bool
  | InstancedRRectBatch SkRRect SkMatrix GrColor bool
  | InstancedDRRectBatch SkRRect SkRRect SkMatrix GrColor bool
  | AAFillRectBatch GrColor SkMatrix SkRect SkRect
  | AAFillRectLocalRectBatch GrColor SkMatrix SkRect SkRect
  | AAFillRectLocalMatrixBatch GrColor SkMatrix SkMatrix SkRect
  | NonAAFillRectBatch GrColor SkMatrix SkRect "SkRect option" "SkMatrix option"
  | AAStrokeRectBatch GrColor SkMatrix SkRect SkStrokeRec
  | NonAAStrokeRectBatch GrColor SkMatrix SkRect SkStrokeRec bool
  | AAFillNestedRectsBatch GrColor SkMatrix SkRect SkRect
  | OvalBatch GrColor SkMatrix SkRect SkStrokeRec
  | RRectBatch GrColor SkMatrix SkRRect SkStrokeRec
  | DrawVerticesBatch GrColor GrPrimitiveType SkMatrix "SkPoint list" "nat list" "GrColor list"
      "SkPoint list" SkRect
  | DrawAtlasBatch GrColor SkMatrix nat "(SkScalar \<times> SkScalar \<times> SkScalar \<times> SkScalar) list"
      "SkRect list" "GrColor list"
  | NinePatchBatch GrColor SkMatrix int int SkIRect SkRect
  | ClientBatch nat

record GrPipelineBuilder =
  pbPaint :: GrPaint
  pbUseHWAA :: bool
  pbUserStencil :: "nat option"
  pbSnapVerticesToPixelCenters :: bool

definition GrPipelineBuilder_make :: "GrPaint \<Rightarrow> bool \<Rightarrow> GrPipelineBuilder" where
  "GrPipelineBuilder_make paint useHWAA = \<lparr> pbPaint = paint, pbUseHWAA = useHWAA,
     pbUserStencil = None, pbSnapVerticesToPixelCenters = False \<rparr>"

definition setUserStencilIf :: "nat option \<Rightarrow> GrPipelineBuilder \<Rightarrow> GrPipelineBuilder" where
  "setUserStencilIf ss pb = (case ss of None \<Rightarrow> pb | Some x \<Rightarrow> pb\<lparr> pbUserStencil := Some x \<rparr>)"

text \<open>The three text entry points hand their arguments to the atlas text context.\<close>

datatype TextCall =
    DrawText GrClip GrPaint nat SkMatrix string SkScalar SkScalar SkIRect
  | DrawPosText GrClip GrPaint nat SkMatrix string "SkScalar list" int SkPoint SkIRect
  | DrawTextBlob GrClip nat SkMatrix nat SkScalar SkScalar "nat option" SkIRect

text \<open>What reaches the collaborators, in call order. The first argument of a draw-target
  operation is the handle of the target that received it.\<close>

datatype Event =
    Discard nat
  | AddBatch nat GrBatch
  | DrawBatch nat GrPipelineBuilder GrClip GrBatch
  | CopySurface nat nat SkIRect "int \<times> int"
  | ClearStencilClip nat SkIRect bool
  | StencilPath nat GrClip nat bool SkMatrix nat
  | PathRendererDraw nat DrawPathArgs
  | AtlasTextDraw TextCall

text \<open>The state a draw context reads and writes: the manager's abandoned flag, the held
  draw-target handle (\<open>None\<close> is the null pointer), the render target's last draw target, the
  number of targets the manager has issued so far (handles are \<open>0, 1, ...\<close>), the handles that
  have been closed, whether the text context exists, the events submitted so far, and the number
  of times a flush checkpoint (\<open>AutoCheckFlush\<close>'s destructor) has fired.\<close>

record DrawContext =
  wasAbandoned :: bool
  fDrawTarget :: "nat option"
  lastDrawTarget :: "nat option"
  issuedTargets :: nat
  closedTargets :: "nat list"
  fAtlasTextContext :: bool
  submitted :: "Event list"
  flushChecks :: nat

text \<open>The constructor takes the render target's last draw target as the held one, open or
  closed, null or not. Its arguments here are the manager's state at that moment.\<close>

definition GrDrawContext_new :: "bool \<Rightarrow> nat option \<Rightarrow> nat \<Rightarrow> nat list \<Rightarrow> DrawContext" where
  "GrDrawContext_new abandoned lastTarget issued closedList =
     \<lparr> wasAbandoned = abandoned, fDrawTarget = lastTarget, lastDrawTarget = lastTarget,
       issuedTargets = issued, closedTargets = closedList, fAtlasTextContext = False,
       submitted = [], flushChecks = 0 \<rparr>"

definition isClosed :: "DrawContext \<Rightarrow> nat \<Rightarrow> bool" where
  "isClosed s h = (h \<in> set (closedTargets s))"

text \<open>Modelled from the spec: \<open>GrDrawingManager::newDrawTarget\<close> is not among the sources.
  The draw context "lazily requests a new target from the owning manager"; the target it gets is
  fresh, hence open, and becomes the render target's most-recently-issued target.\<close>

definition newDrawTarget :: "DrawContext \<Rightarrow> nat \<times> DrawContext" where
  "newDrawTarget s = (issuedTargets s,
     s\<lparr> lastDrawTarget := Some (issuedTargets s), issuedTargets := Suc (issuedTargets s) \<rparr>)"

definition getDrawTarget :: "DrawContext \<Rightarrow> nat \<times> DrawContext" where
  "getDrawTarget s =
     (case fDrawTarget s of
        None \<Rightarrow> (let (h, s') = newDrawTarget s in (h, s'\<lparr> fDrawTarget := Some h \<rparr>))
      | Some held \<Rightarrow>
          if isClosed s held
          then (let (h, s') = newDrawTarget s in (h, s'\<lparr> fDrawTarget := Some h \<rparr>))
          else (held, s))"

definition emit :: "Event \<Rightarrow> DrawContext \<Rightarrow> DrawContext" where
  "emit e s = s\<lparr> submitted := submitted s @ [e] \<rparr>"

text \<open>\<open>this->getDrawTarget()->op(...)\<close>: fetch the target, then hand it the operation.\<close>

definition onTarget :: "(nat \<Rightarrow> Event) \<Rightarrow> DrawContext \<Rightarrow> DrawContext" where
  "onTarget ev s = (let (h, s') = getDrawTarget s in emit (ev h) s')"

text \<open>The destructor of \<open>AutoCheckFlush\<close>: one call of \<open>flushIfNecessary\<close>.\<close>

definition acf_exit :: "DrawContext \<Rightarrow> DrawContext" where
  "acf_exit s = s\<lparr> flushChecks := Suc (flushChecks s) \<rparr>"

section \<open>The draw context\<close>

definition getBoundsRect :: "GrRenderTarget \<Rightarrow> SkRect" where
  "getBoundsRect rt = SkRect_MakeLTRB 0 0 (real_of_int (rtWidth rt)) (real_of_int (rtHeight rt))"

text \<open>\<open>mustUseHWAA\<close> is an inline member of \<open>GrDrawContext.h\<close>, which is not among the
  sources; it is taken with its library meaning: antialiased paint on a unified multisampled
  target. It only sets the \<open>useHWAA\<close> flag of a pipeline.\<close>

definition mustUseHWAA :: "Env \<Rightarrow> GrPaint \<Rightarrow> bool" where
  "mustUseHWAA env paint = (isAntiAlias paint \<and> isUnifiedMultisampled (fRenderTarget env))"

definition discard :: "DrawContext \<Rightarrow> DrawContext" where
  "discard s = (if wasAbandoned s then s else acf_exit (onTarget Discard s))"

definition rect_contains_inclusive :: "SkRect \<Rightarrow> SkPoint \<Rightarrow> bool" where
  "rect_contains_inclusive rect point =
     (fX point \<ge> fLeft rect \<and> fX point \<le> fRight rect \<and>
      fY point \<ge> fTop rect \<and> fY point \<le> fBottom rect)"

definition view_matrix_ok_for_aa_fill_rect :: "Env \<Rightarrow> SkMatrix \<Rightarrow> bool" where
  "view_matrix_ok_for_aa_fill_rect env viewMatrix = preservesRightAngles (matrixOps env) viewMatrix"

text \<open>\<open>should_apply_coverage_aa\<close> returns its result and the value it writes to \<open>useHWAA\<close>.\<close>

definition should_apply_coverage_aa :: "GrPaint \<Rightarrow> GrRenderTarget \<Rightarrow> bool \<times> bool" where
  "should_apply_coverage_aa paint rt =
     (if \<not> isAntiAlias paint then (False, False)
      else (\<not> isUnifiedMultisampled rt, isUnifiedMultisampled rt))"

text \<open>\<open>crop_filled_rect\<close>: \<open>None\<close> is the source's \<open>false\<close> (the draw can be skipped), \<open>Some\<close>
  carries the rect and the local rect as the source leaves them.\<close>

definition crop_filled_rect ::
  "Env \<Rightarrow> GrClip \<Rightarrow> SkMatrix \<Rightarrow> SkRect \<Rightarrow> SkRect option \<Rightarrow> (SkRect \<times> SkRect option) option" where
  "crop_filled_rect env clip viewMatrix rect localRect =
     (if \<not> rectStaysRect (matrixOps env) viewMatrix then Some (rect, localRect)
      else case invert (matrixOps env) viewMatrix of
        None \<Rightarrow> None
      | Some inverseViewMatrix \<Rightarrow>
          let clipDevBounds = getConservativeBounds (clipOps env) clip
                (rtWidth (fRenderTarget env)) (rtHeight (fRenderTarget env));
              clipBounds = mapRect (matrixOps env) inverseViewMatrix (SkRect_Make clipDevBounds)
          in (case localRect of
               Some lr \<Rightarrow>
                 if \<not> SkRect_intersects rect clipBounds then None
                 else
                   let dx = width lr / width rect;
                       dy = height lr / height rect;
                       (lr1, r1) = (if fLeft clipBounds > fLeft rect
                          then (lr\<lparr> fLeft := fLeft lr + (fLeft clipBounds - fLeft rect) * dx \<rparr>,
                                rect\<lparr> fLeft := fLeft clipBounds \<rparr>)
                          else (lr, rect));
                       (lr2, r2) = (if fTop clipBounds > fTop r1
                          then (lr1\<lparr> fTop := fTop lr1 + (fTop clipBounds - fTop r1) * dy \<rparr>,
                                r1\<lparr> fTop := fTop clipBounds \<rparr>)
                          else (lr1, r1));
                       (lr3, r3) = (if fRight clipBounds < fRight r2
                          then (lr2\<lparr> fRight := fRight lr2 - (fRight r2 - fRight clipBounds) * dx \<rparr>,
                                r2\<lparr> fRight := fRight clipBounds \<rparr>)
                          else (lr2, r2));
                       (lr4, r4) = (if fBottom clipBounds < fBottom r3
                          then (lr3\<lparr> fBottom := fBottom lr3 - (fBottom r3 - fBottom clipBounds) * dy \<rparr>,
                                r3\<lparr> fBottom := fBottom clipBounds \<rparr>)
                          else (lr3, r3))
                   in Some (r4, Some lr4)
             | None \<Rightarrow> map_option (\<lambda>r. (r, None)) (SkRect_intersect rect clipBounds)))"

definition drawNonAAFilledRect ::
  "Env \<Rightarrow> GrClip \<Rightarrow> GrPaint \<Rightarrow> SkMatrix \<Rightarrow> SkRect \<Rightarrow> SkRect option \<Rightarrow> SkMatrix option \<Rightarrow>
   nat option \<Rightarrow> DrawContext \<Rightarrow> DrawContext" where
  "drawNonAAFilledRect env clip paint viewMatrix rect localRect localMatrix ss s =
     (let batch = NonAAFillRectBatch (getColor paint) viewMatrix rect localRect localMatrix;
          pipelineBuilder = setUserStencilIf ss
             (GrPipelineBuilder_make paint (mustUseHWAA env paint))
      in onTarget (\<lambda>h. DrawBatch h pipelineBuilder clip batch) s)"

definition CreateAAFill :: "Env \<Rightarrow> GrColor \<Rightarrow> SkMatrix \<Rightarrow> SkRect \<Rightarrow> SkRect \<Rightarrow> GrBatch option" where
  "CreateAAFill env color viewMatrix rect devRect =
     (if makesAAFill (factories env) color viewMatrix rect devRect
      then Some (AAFillRectBatch color viewMatrix rect devRect) else None)"

text \<open>\<open>drawFilledRect\<close> returns its boolean and the state. The instanced renderer is asked
  through \<open>getDrawTarget()\<close>, which may already replace the held target.\<close>

definition drawFilledRect ::
  "Env \<Rightarrow> GrClip \<Rightarrow> GrPaint \<Rightarrow> SkMatrix \<Rightarrow> SkRect \<Rightarrow> nat option \<Rightarrow> DrawContext \<Rightarrow>
   bool \<times> DrawContext" where
  "drawFilledRect env clip paint viewMatrix rect ss s =
     (case crop_filled_rect env clip viewMatrix rect None of
        None \<Rightarrow> (True, s)
      | Some (croppedRect, _) \<Rightarrow>
          let (h0, s1) = getDrawTarget s in
          (case (case instancedRendering env of
                  None \<Rightarrow> None
                | Some ir \<Rightarrow> recordRect ir croppedRect viewMatrix (getColor paint) (isAntiAlias paint)) of
            Some useHWAA \<Rightarrow>
              (True, onTarget (\<lambda>h. DrawBatch h
                 (setUserStencilIf ss (GrPipelineBuilder_make paint useHWAA)) clip
                 (InstancedRectBatch croppedRect viewMatrix (getColor paint) (isAntiAlias paint))) s1)
          | None \<Rightarrow>
              let (coverageAA, useHWAA) = should_apply_coverage_aa paint (fRenderTarget env) in
              if coverageAA then
                if view_matrix_ok_for_aa_fill_rect env viewMatrix then
                  let devBoundRect = mapRect (matrixOps env) viewMatrix croppedRect in
                  (case CreateAAFill env (getColor paint) viewMatrix croppedRect devBoundRect of
                     Some batch \<Rightarrow>
                       (True, onTarget (\<lambda>h. DrawBatch h
                          (setUserStencilIf ss (GrPipelineBuilder_make paint useHWAA)) clip batch) s1)
                   | None \<Rightarrow> (False, s1))
                else (False, s1)
              else (True, drawNonAAFilledRect env clip paint viewMatrix croppedRect None None ss s1)))"


subsection \<open>General path drawing\<close>

text \<open>\<open>internalDrawPath\<close>. \<open>canDrawArgs.fShape\<close> points at the local \<open>shape\<close>, so every query
  sees the shape as it is at that moment. The chosen renderer's \<open>drawPath\<close> is a collaborator's
  effect: it is recorded as one event carrying the renderer and its arguments.\<close>

definition internalDrawPath ::
  "Env \<Rightarrow> GrClip \<Rightarrow> GrPaint \<Rightarrow> SkMatrix \<Rightarrow> SkPath \<Rightarrow> GrStyle \<Rightarrow> DrawContext \<Rightarrow> DrawContext" where
  "internalDrawPath env clip paint viewMatrix path style s =
     (if wasAbandoned s then s
      else
        let useCoverageAA = fst (should_apply_coverage_aa paint (fRenderTarget env));
            isStencilBufferMSAA = isStencilBufferMultisampled (fRenderTarget env);
            type = (if useCoverageAA then kColorAntiAlias_DrawType else kColor_DrawType);
            shape = GrShape_make path style
        in if shapeIsEmpty (pathOps env) shape then s
           else
             let canDrawArgs = (\<lambda>sh. \<lparr> cdViewMatrix = viewMatrix, cdShape = sh,
                     cdAntiAlias = useCoverageAA, cdHasUserStencilSettings = False,
                     cdIsStencilBufferMSAA = isStencilBufferMSAA \<rparr>);
                 pr = getPathRenderer env (canDrawArgs shape) False type;
                 styleScale = MatrixToScaleFactor (matrixOps env) viewMatrix
             in (case (if pr = None \<and> pathEffect (shapeStyle shape) \<noteq> None
                       then (let shape1 = applyStyle (pathOps env) shape kPathEffectOnly styleScale
                             in if shapeIsEmpty (pathOps env) shape1 then None
                                else Some (shape1, getPathRenderer env (canDrawArgs shape1) False type))
                       else Some (shape, pr)) of
                   None \<Rightarrow> s
                 | Some (shape2, pr2) \<Rightarrow>
                     (case (if pr2 = None
                            then (if applies (shapeStyle shape2)
                                  then (let shape3 = applyStyle (pathOps env) shape2
                                                       kPathEffectAndStrokeRec styleScale
                                        in if shapeIsEmpty (pathOps env) shape3 then None
                                           else Some (shape3,
                                                  getPathRenderer env (canDrawArgs shape3) True type))
                                  else Some (shape2, getPathRenderer env (canDrawArgs shape2) True type))
                            else Some (shape2, pr2)) of
                        None \<Rightarrow> s
                      | Some (shape4, pr4) \<Rightarrow>
                          (case pr4 of
                             None \<Rightarrow> s
                           | Some renderer \<Rightarrow>
                               emit (PathRendererDraw renderer
                                 \<lparr> dpPaint = paint, dpUserStencilSettings = None, dpClip = clip,
                                   dpViewMatrix = viewMatrix, dpShape = shape4,
                                   dpAntiAlias = useCoverageAA \<rparr>) s))))"

subsection \<open>Rounded rects\<close>

definition CreateRRectBatch ::
  "Env \<Rightarrow> GrColor \<Rightarrow> SkMatrix \<Rightarrow> SkRRect \<Rightarrow> SkStrokeRec \<Rightarrow> GrBatch option" where
  "CreateRRectBatch env color viewMatrix rrect stroke =
     (if makesRRectBatch (factories env) color viewMatrix rrect stroke
      then Some (RRectBatch color viewMatrix rrect stroke) else None)"

definition drawRRect ::
  "Env \<Rightarrow> GrClip \<Rightarrow> GrPaint \<Rightarrow> SkMatrix \<Rightarrow> SkRRect \<Rightarrow> GrStyle \<Rightarrow> DrawContext \<Rightarrow> DrawContext" where
  "drawRRect env clip paint viewMatrix rrect style s =
     (if wasAbandoned s then s
      else if SkRRect_isEmpty rrect then s
      else acf_exit
        (let stroke = strokeRec style;
             (h0, s1) = getDrawTarget s
         in (case (case instancedRendering env of
                     None \<Rightarrow> None
                   | Some ir \<Rightarrow>
                       if isFillStyle stroke
                       then recordRRect ir rrect viewMatrix (getColor paint) (isAntiAlias paint)
                       else None) of
               Some useHWAA \<Rightarrow>
                 onTarget (\<lambda>h. DrawBatch h (GrPipelineBuilder_make paint useHWAA) clip
                   (InstancedRRectBatch rrect viewMatrix (getColor paint) (isAntiAlias paint))) s1
             | None \<Rightarrow>
                 let (coverageAA, useHWAA) = should_apply_coverage_aa paint (fRenderTarget env) in
                 (case (if coverageAA
                        then CreateRRectBatch env (getColor paint) viewMatrix rrect stroke
                        else None) of
                    Some batch \<Rightarrow>
                      onTarget (\<lambda>h. DrawBatch h (GrPipelineBuilder_make paint useHWAA) clip batch) s1
                  | None \<Rightarrow>
                      internalDrawPath env clip paint viewMatrix
                        (addRRect rrect (setIsVolatile True SkPath_new)) style s1))))"

subsection \<open>Clearing and drawing rects\<close>

definition CreateAAStroke ::
  "Env \<Rightarrow> GrColor \<Rightarrow> SkMatrix \<Rightarrow> SkRect \<Rightarrow> SkStrokeRec \<Rightarrow> GrBatch option" where
  "CreateAAStroke env color viewMatrix rect stroke =
     (if makesAAStroke (factories env) color viewMatrix rect stroke
      then Some (AAStrokeRectBatch color viewMatrix rect stroke) else None)"

definition CreateNonAAStroke ::
  "Env \<Rightarrow> GrColor \<Rightarrow> SkMatrix \<Rightarrow> SkRect \<Rightarrow> SkStrokeRec \<Rightarrow> bool \<Rightarrow> GrBatch option" where
  "CreateNonAAStroke env color viewMatrix rect stroke snapToPixelCenters =
     (if makesNonAAStroke (factories env) color viewMatrix rect stroke snapToPixelCenters
      then Some (NonAAStrokeRectBatch color viewMatrix rect stroke snapToPixelCenters) else None)"

text \<open>\<open>clear\<close> and \<open>drawRect\<close> call each other: \<open>clear\<close> draws a rect on a backend that must
  draw instead of clearing, and a fill-style \<open>drawRect\<close> covering the target clears on every other
  backend. A stroke-style \<open>drawRect\<close> of a degenerate rect calls the fill-style one.
  The null \<open>style\<close> pointer is \<open>None\<close>. In \<open>clear\<close>, the boolean beside the chosen rect says
  whether \<open>rect\<close> points at \<open>rtRect\<close>.\<close>

function clear :: "Env \<Rightarrow> SkIRect option \<Rightarrow> GrColor \<Rightarrow> bool \<Rightarrow> DrawContext \<Rightarrow> DrawContext"
  and drawRect ::
    "Env \<Rightarrow> GrClip \<Rightarrow> GrPaint \<Rightarrow> SkMatrix \<Rightarrow> SkRect \<Rightarrow> GrStyle option \<Rightarrow> DrawContext \<Rightarrow> DrawContext"
where
  "clear env rect color canIgnoreRect s =
     (if wasAbandoned s then s
      else acf_exit
        (let rtRect = SkIRect_MakeWH (rtWidth (fRenderTarget env)) (rtHeight (fRenderTarget env))
         in (case (case rect of
                     None \<Rightarrow> Some (rtRect, True)
                   | Some given \<Rightarrow>
                       if (canIgnoreRect \<and> fullClearIsFree (caps env)) \<or> SkIRect_contains given rtRect
                       then Some (rtRect, True)
                       else (case SkIRect_intersect given rtRect of
                               None \<Rightarrow> None
                             | Some clippedRect \<Rightarrow> Some (clippedRect, False))) of
               None \<Rightarrow> s
             | Some (r, isRtRect) \<Rightarrow>
                 if useDrawInsteadOfClear (caps env)
                 then drawRect env GrNoClip
                        (GrPaint_default\<lparr> getColor := color,
                           getXPFactory := PorterDuffXPFactory kSrc_Mode \<rparr>)
                        SkMatrix_I (SkRect_Make r) None
                        (if isRtRect then discard s else s)
                 else onTarget (\<lambda>h. AddBatch h (GrClearBatch r color)) s)))"
| "drawRect env clip paint viewMatrix rect stylePtr s =
     (let style = (case stylePtr of None \<Rightarrow> GrStyle_SimpleFill | Some st \<Rightarrow> st) in
      if wasAbandoned s then s
      else acf_exit
        (let stroke = strokeRec style;
             fallback = internalDrawPath env clip paint viewMatrix
                          (addRect rect (setIsVolatile True SkPath_new)) style
         in if getStyle stroke = kFill_Style then
              (case (if \<not> useDrawInsteadOfClear (caps env)
                     then (let rtRect = getBoundsRect (fRenderTarget env) in
                           if quickContains (clipOps env) clip rtRect
                           then (case invert (matrixOps env) viewMatrix of
                                   None \<Rightarrow> Some s
                                 | Some invM \<Rightarrow>
                                     (case mapRectToQuad (matrixOps env) invM rtRect of
                                        (q0, q1, q2, q3) \<Rightarrow>
                                          if rect_contains_inclusive rect q0 \<and>
                                             rect_contains_inclusive rect q1 \<and>
                                             rect_contains_inclusive rect q2 \<and>
                                             rect_contains_inclusive rect q3
                                          then (case isConstantBlendedColor env paint of
                                                  Some clearColor \<Rightarrow>
                                                    Some (clear env None clearColor True s)
                                                | None \<Rightarrow> None)
                                          else None))
                           else None)
                     else None) of
                 Some finished \<Rightarrow> finished
               | None \<Rightarrow>
                   (case drawFilledRect env clip paint viewMatrix rect None s of
                      (True, s1) \<Rightarrow> s1
                    | (False, s1) \<Rightarrow> fallback s1))
            else if getStyle stroke = kStroke_Style \<or> getStyle stroke = kHairline_Style then
              (if (width rect = 0 \<or> height rect = 0) \<and> getStyle stroke \<noteq> kHairline_Style
               then
                 (let r = getWidth stroke / 2 in
                  case getJoin stroke of
                    kMiter_Join \<Rightarrow>
                      drawRect env clip paint viewMatrix
                        (SkRect_MakeLTRB (fLeft rect - r) (fTop rect - r) (fRight rect + r) (fBottom rect + r))
                        (Some GrStyle_SimpleFill) s
                  | kRound_Join \<Rightarrow>
                      if width rect \<noteq> 0 \<or> height rect \<noteq> 0
                      then drawRRect env clip paint viewMatrix
                             (SkRRect_MakeRectXY (makeOutset rect r r) r r) GrStyle_SimpleFill s
                      else if width rect = 0
                      then drawRect env clip paint viewMatrix
                             (SkRect_MakeLTRB (fLeft rect - r) (fTop rect) (fRight rect + r) (fBottom rect))
                             (Some GrStyle_SimpleFill) s
                      else drawRect env clip paint viewMatrix
                             (SkRect_MakeLTRB (fLeft rect) (fTop rect - r) (fRight rect) (fBottom rect + r))
                             (Some GrStyle_SimpleFill) s
                  | kBevel_Join \<Rightarrow>
                      if width rect = 0
                      then drawRect env clip paint viewMatrix
                             (SkRect_MakeLTRB (fLeft rect - r) (fTop rect) (fRight rect + r) (fBottom rect))
                             (Some GrStyle_SimpleFill) s
                      else drawRect env clip paint viewMatrix
                             (SkRect_MakeLTRB (fLeft rect) (fTop rect - r) (fRight rect) (fBottom rect + r))
                             (Some GrStyle_SimpleFill) s)
               else
                 (let (coverageAA, useHWAA) = should_apply_coverage_aa paint (fRenderTarget env);
                      color = getColor paint;
                      snapToPixelCenters = (\<not> coverageAA \<and> getStyle stroke = kHairline_Style \<and>
                                            \<not> isUnifiedMultisampled (fRenderTarget env));
                      batch = (if coverageAA
                               then (if rectStaysRect (matrixOps env) viewMatrix
                                     then CreateAAStroke env color viewMatrix rect stroke else None)
                               else CreateNonAAStroke env color viewMatrix rect stroke snapToPixelCenters)
                  in case batch of
                       Some b \<Rightarrow>
                         onTarget (\<lambda>h. DrawBatch h
                            ((GrPipelineBuilder_make paint useHWAA)
                               \<lparr> pbSnapVerticesToPixelCenters := snapToPixelCenters \<rparr>) clip b) s
                     | None \<Rightarrow> fallback s))
            else fallback s))"
  by pat_completeness auto
termination
  by (relation "measure (\<lambda>x. case x of
        Inl (env, rect, color, canIgnoreRect, s) \<Rightarrow>
          (if useDrawInsteadOfClear (caps env) then 3 else 0)
      | Inr (env, clip, paint, viewMatrix, rect, stylePtr, s) \<Rightarrow>
          (if getStyle (strokeRec (case stylePtr of None \<Rightarrow> GrStyle_SimpleFill | Some st \<Rightarrow> st)) = kFill_Style
           then (if useDrawInsteadOfClear (caps env) then 2 else 1) else 4))")
     (auto simp: GrStyle_SimpleFill_def)

declare clear.simps [simp del] drawRect.simps [simp del]


subsection \<open>Paint, paths and nested rects\<close>

definition drawPaint :: "Env \<Rightarrow> GrClip \<Rightarrow> GrPaint \<Rightarrow> SkMatrix \<Rightarrow> DrawContext \<Rightarrow> DrawContext" where
  "drawPaint env clip origPaint viewMatrix s =
     (if wasAbandoned s then s
      else
        let r = SkRect_MakeLTRB 0 0 (real_of_int (rtWidth (fRenderTarget env)))
                  (real_of_int (rtHeight (fRenderTarget env)));
            paint = (if isAntiAlias origPaint then origPaint\<lparr> isAntiAlias := False \<rparr> else origPaint);
            isPerspective = hasPerspective (matrixOps env) viewMatrix
        in if \<not> isPerspective then
             (case invert (matrixOps env) viewMatrix of
                None \<Rightarrow> s
              | Some inverseMatrix \<Rightarrow>
                  drawRect env clip paint viewMatrix (mapRect (matrixOps env) inverseMatrix r) None s)
           else
             (case invert (matrixOps env) viewMatrix of
                None \<Rightarrow> s
              | Some localMatrix \<Rightarrow>
                  acf_exit (drawNonAAFilledRect env clip paint SkMatrix_I r None
                              (Some localMatrix) None s)))"

text \<open>The nested-rect test below compares differences of coordinates with thresholds, so
  there the rounding of the difference decides the outcome, and the difference is rounded as
  the hardware rounds it: \<open>SkScalar_round x\<close> is the float nearest to \<open>x\<close>, a tie going to the
  even significand. A float has a significand of 24 bits and its exponent is at least \<open>-126\<close>
  (below that the spacing stays \<open>2^-149\<close>: gradual underflow). Results beyond the largest float
  (infinities, NaN) are not represented.\<close>

text \<open>\<open>exponent_up a e\<close> and \<open>exponent_down a e\<close> normalise a positive \<open>a\<close> into \<open>[1, 2)\<close>,
  counting the binary exponent; the latter stops at the smallest normal exponent.\<close>

function exponent_up :: "real \<Rightarrow> int \<Rightarrow> int" where
  "exponent_up a e = (if 2 \<le> a then exponent_up (a / 2) (e + 1) else e)"
  by pat_completeness auto
termination
proof (relation "measure (\<lambda>(a, e). nat \<lceil>a\<rceil>)")
  show "wf (measure (\<lambda>(a, e). nat \<lceil>a\<rceil>))" by simp
next
  fix a :: real and e :: int
  assume "2 \<le> a"
  then have "a / 2 \<le> a - 1" by simp
  then have "\<lceil>a / 2\<rceil> \<le> \<lceil>a - 1\<rceil>" by (rule ceiling_mono)
  moreover have "0 < \<lceil>a\<rceil>" using \<open>2 \<le> a\<close> by (simp add: ceiling_less_iff)
  ultimately show "((a / 2, e + 1), (a, e)) \<in> measure (\<lambda>(a, e). nat \<lceil>a\<rceil>)"
    by simp
qed

function exponent_down :: "real \<Rightarrow> int \<Rightarrow> int" where
  "exponent_down a e = (if a < 1 \<and> - 126 < e then exponent_down (a * 2) (e - 1) else e)"
  by pat_completeness auto
termination
  by (relation "measure (\<lambda>(a, e). nat (e + 126))") auto

declare exponent_up.simps [simp del] exponent_down.simps [simp del]

definition float_exponent :: "real \<Rightarrow> int" where
  "float_exponent a = (if 1 \<le> a then exponent_up a 0 else exponent_down a 0)"

definition pow2 :: "int \<Rightarrow> real" where
  "pow2 k = (if 0 \<le> k then 2 ^ nat k else 1 / 2 ^ nat (- k))"

definition round_half_even :: "real \<Rightarrow> int" where
  "round_half_even x =
     (let f = \<lfloor>x\<rfloor>; d = x - of_int f
      in if d < 1 / 2 then f else if 1 / 2 < d then f + 1 else if even f then f else f + 1)"

definition SkScalar_round :: "real \<Rightarrow> SkScalar" where
  "SkScalar_round x =
     (if x = 0 then 0
      else let ulp = pow2 (float_exponent \<bar>x\<bar> - 23)
           in of_int (round_half_even (x / ulp)) * ulp)"

text \<open>The source's \<open>a - b\<close> on two scalars.\<close>

definition SkScalar_sub :: "SkScalar \<Rightarrow> SkScalar \<Rightarrow> SkScalar" where
  "SkScalar_sub a b = SkScalar_round (a - b)"

text \<open>\<open>SkScalarNearlyEqual\<close> and its default tolerance \<open>SK_ScalarNearlyZero\<close> are defined
  in \<open>SkScalar.h\<close>, which is not among the sources; they are taken with their library values:
  the tolerance is \<open>SK_Scalar1 / (1 << 12)\<close> and \<open>SkScalarNearlyEqual(x, y)\<close> is
  \<open>SkScalarAbs(x - y) <= tolerance\<close>.\<close>

definition SK_ScalarNearlyZero :: SkScalar where
  "SK_ScalarNearlyZero = 1 / 4096"

definition SkScalarNearlyEqual :: "SkScalar \<Rightarrow> SkScalar \<Rightarrow> bool" where
  "SkScalarNearlyEqual x y = (\<bar>SkScalar_sub x y\<bar> \<le> SK_ScalarNearlyZero)"

definition asScalars :: "SkRect \<Rightarrow> SkScalar list" where
  "asScalars r = [fLeft r, fTop r, fRight r, fBottom r]"

text \<open>The loop \<open>for (int i = 1; i < 4; ++i)\<close> of \<open>fills_as_nested_rects\<close>, returning
  \<open>(allEq, allGoE1)\<close>.\<close>

function margin_loop ::
  "SkScalar list \<Rightarrow> SkScalar list \<Rightarrow> SkScalar \<Rightarrow> nat \<Rightarrow> bool \<Rightarrow> bool \<Rightarrow> bool \<times> bool" where
  "margin_loop outer inner margin i allEq allGoE1 =
     (if i < 4 then
        (let temp = \<bar>SkScalar_sub (outer ! i) (inner ! i)\<bar>
         in margin_loop outer inner margin (i + 1)
              (if \<not> SkScalarNearlyEqual margin temp then False else allEq)
              (if temp < 1 then False else allGoE1))
      else (allEq, allGoE1))"
  by pat_completeness auto
termination
  by (relation "measure (\<lambda>(outer, inner, margin, i, allEq, allGoE1). 4 - i)") auto

declare margin_loop.simps [simp del]

definition fills_as_nested_rects :: "Env \<Rightarrow> SkMatrix \<Rightarrow> SkPath \<Rightarrow> (SkRect \<times> SkRect) option" where
  "fills_as_nested_rects env viewMatrix path =
     (if isInverseFillType path then None
      else if \<not> rectStaysRect (matrixOps env) viewMatrix then None
      else (case isNestedFillRects (pathOps env) path of
              None \<Rightarrow> None
            | Some (rects, dirs) \<Rightarrow>
                if getFillType path = kWinding_FillType \<and> fst dirs = snd dirs then None
                else
                  let outer = asScalars (fst rects);
                      inner = asScalars (snd rects);
                      margin = \<bar>SkScalar_sub (outer ! 0) (inner ! 0)\<bar>;
                      (allEq, allGoE1) = margin_loop outer inner margin 1 True (margin \<ge> 1)
                  in if allEq \<or> allGoE1 then Some rects else None))"

definition CreateAAFillNestedRects ::
  "Env \<Rightarrow> GrColor \<Rightarrow> SkMatrix \<Rightarrow> SkRect \<times> SkRect \<Rightarrow> GrBatch option" where
  "CreateAAFillNestedRects env color viewMatrix rects =
     (if makesAAFillNestedRects (factories env) color viewMatrix (fst rects) (snd rects)
      then Some (AAFillNestedRectsBatch color viewMatrix (fst rects) (snd rects)) else None)"

definition CreateOvalBatch ::
  "Env \<Rightarrow> GrColor \<Rightarrow> SkMatrix \<Rightarrow> SkRect \<Rightarrow> SkStrokeRec \<Rightarrow> GrBatch option" where
  "CreateOvalBatch env color viewMatrix oval stroke =
     (if makesOvalBatch (factories env) color viewMatrix oval stroke
      then Some (OvalBatch color viewMatrix oval stroke) else None)"

definition drawPath ::
  "Env \<Rightarrow> GrClip \<Rightarrow> GrPaint \<Rightarrow> SkMatrix \<Rightarrow> SkPath \<Rightarrow> GrStyle \<Rightarrow> DrawContext \<Rightarrow> DrawContext" where
  "drawPath env clip paint viewMatrix path style s =
     (if wasAbandoned s then s
      else if SkPath_isEmpty path then
        (if isInverseFillType path then drawPaint env clip paint viewMatrix s else s)
      else acf_exit
        (let (coverageAA, useHWAA) = should_apply_coverage_aa paint (fRenderTarget env) in
         case (if coverageAA \<and> pathEffect style = None then
                 (case (if isSimpleFill style \<and> \<not> isConvex (pathOps env) path
                        then fills_as_nested_rects env viewMatrix path else None) of
                    Some rects \<Rightarrow>
                      Some (case CreateAAFillNestedRects env (getColor paint) viewMatrix rects of
                              Some batch \<Rightarrow>
                                onTarget (\<lambda>h. DrawBatch h (GrPipelineBuilder_make paint useHWAA)
                                                clip batch) s
                            | None \<Rightarrow> s)
                  | None \<Rightarrow>
                      (case isOval (pathOps env) path of
                         Some ovalRect \<Rightarrow>
                           if \<not> isInverseFillType path then
                             (case CreateOvalBatch env (getColor paint) viewMatrix ovalRect
                                     (strokeRec style) of
                                Some batch \<Rightarrow>
                                  Some (onTarget (\<lambda>h. DrawBatch h
                                          (GrPipelineBuilder_make paint useHWAA) clip batch) s)
                              | None \<Rightarrow> None)
                           else None
                       | None \<Rightarrow> None))
               else None) of
           Some finished \<Rightarrow> finished
         | None \<Rightarrow> internalDrawPath env clip paint viewMatrix path style s))"

subsection \<open>The remaining entry points\<close>

definition copySurface ::
  "Env \<Rightarrow> nat \<Rightarrow> SkIRect \<Rightarrow> int \<times> int \<Rightarrow> DrawContext \<Rightarrow> bool \<times> DrawContext" where
  "copySurface env src srcRect dstPoint s =
     (if wasAbandoned s then (False, s)
      else (let (h, s1) = getDrawTarget s
            in (targetCopySurface env src srcRect dstPoint,
                emit (CopySurface h src srcRect dstPoint) s1)))"

definition atlasText :: "TextCall \<Rightarrow> DrawContext \<Rightarrow> DrawContext" where
  "atlasText call s = emit (AtlasTextDraw call) (s\<lparr> fAtlasTextContext := True \<rparr>)"

definition drawText ::
  "GrClip \<Rightarrow> GrPaint \<Rightarrow> nat \<Rightarrow> SkMatrix \<Rightarrow> string \<Rightarrow> SkScalar \<Rightarrow> SkScalar \<Rightarrow> SkIRect \<Rightarrow>
   DrawContext \<Rightarrow> DrawContext" where
  "drawText clip grPaint skPaint viewMatrix txt x y clipBounds s =
     (if wasAbandoned s then s
      else atlasText (DrawText clip grPaint skPaint viewMatrix txt x y clipBounds) s)"

definition drawPosText ::
  "GrClip \<Rightarrow> GrPaint \<Rightarrow> nat \<Rightarrow> SkMatrix \<Rightarrow> string \<Rightarrow> SkScalar list \<Rightarrow> int \<Rightarrow> SkPoint \<Rightarrow> SkIRect \<Rightarrow>
   DrawContext \<Rightarrow> DrawContext" where
  "drawPosText clip grPaint skPaint viewMatrix txt pos scalarsPerPosition offset clipBounds s =
     (if wasAbandoned s then s
      else atlasText (DrawPosText clip grPaint skPaint viewMatrix txt pos scalarsPerPosition
                        offset clipBounds) s)"

definition drawTextBlob ::
  "GrClip \<Rightarrow> nat \<Rightarrow> SkMatrix \<Rightarrow> nat \<Rightarrow> SkScalar \<Rightarrow> SkScalar \<Rightarrow> nat option \<Rightarrow> SkIRect \<Rightarrow>
   DrawContext \<Rightarrow> DrawContext" where
  "drawTextBlob clip skPaint viewMatrix blob x y drawFilter clipBounds s =
     (if wasAbandoned s then s
      else atlasText (DrawTextBlob clip skPaint viewMatrix blob x y drawFilter clipBounds) s)"

definition clearStencilClip :: "SkIRect \<Rightarrow> bool \<Rightarrow> DrawContext \<Rightarrow> DrawContext" where
  "clearStencilClip rect insideClip s =
     (if wasAbandoned s then s
      else acf_exit (onTarget (\<lambda>h. ClearStencilClip h rect insideClip) s))"

text \<open>\<open>GrDrawContextPriv::stencilPath\<close> forwards to the draw target at once.\<close>

definition stencilPath ::
  "GrClip \<Rightarrow> nat \<Rightarrow> bool \<Rightarrow> SkMatrix \<Rightarrow> nat \<Rightarrow> DrawContext \<Rightarrow> DrawContext" where
  "stencilPath clip ss useHWAA viewMatrix path s =
     onTarget (\<lambda>h. StencilPath h clip ss useHWAA viewMatrix path) s"

definition stencilRect ::
  "Env \<Rightarrow> GrClip \<Rightarrow> nat \<Rightarrow> bool \<Rightarrow> SkMatrix \<Rightarrow> SkRect \<Rightarrow> DrawContext \<Rightarrow> DrawContext" where
  "stencilRect env clip ss useHWAA viewMatrix rect s =
     (if wasAbandoned s then s
      else acf_exit
        (let paint = GrPaint_default\<lparr> isAntiAlias := useHWAA, getXPFactory := DisableColorXPFactory \<rparr>
         in snd (drawFilledRect env clip paint viewMatrix rect (Some ss) s)))"

text \<open>A \<open>GrUserStencilSettings\<close> is identified by a number; \<open>0\<close> is \<open>kUnused\<close>.\<close>

definition isUnused :: "nat \<Rightarrow> bool" where
  "isUnused ss = (ss = 0)"

function drawAndStencilRect ::
    "Env \<Rightarrow> GrClip \<Rightarrow> nat \<Rightarrow> SkRegionOp \<Rightarrow> bool \<Rightarrow> bool \<Rightarrow> SkMatrix \<Rightarrow> SkRect \<Rightarrow> DrawContext \<Rightarrow>
     bool \<times> DrawContext"
  and drawAndStencilPath ::
    "Env \<Rightarrow> GrClip \<Rightarrow> nat \<Rightarrow> SkRegionOp \<Rightarrow> bool \<Rightarrow> bool \<Rightarrow> SkMatrix \<Rightarrow> SkPath \<Rightarrow> DrawContext \<Rightarrow>
     bool \<times> DrawContext"
where
  "drawAndStencilRect env clip ss op invertCoverage doAA viewMatrix rect s =
     (if wasAbandoned s then (False, s)
      else
        (let paint = GrPaint_default\<lparr> isAntiAlias := doAA,
                       getXPFactory := CoverageSetOpXPFactory op invertCoverage \<rparr>
         in case drawFilledRect env clip paint viewMatrix rect (Some ss) s of
              (True, s1) \<Rightarrow> (True, acf_exit s1)
            | (False, s1) \<Rightarrow>
                (case drawAndStencilPath env clip ss op invertCoverage doAA viewMatrix
                        (addRect rect (setIsVolatile True SkPath_new)) s1 of
                   (res, s2) \<Rightarrow> (res, acf_exit s2))))"
| "drawAndStencilPath env clip ss op invertCoverage doAA viewMatrix path s =
     (if wasAbandoned s then (False, s)
      else if SkPath_isEmpty path \<and> isInverseFillType path then
        (True, snd (drawAndStencilRect env clip ss op invertCoverage False SkMatrix_I
                      (SkRect_MakeLTRB 0 0 (real_of_int (rtWidth (fRenderTarget env)))
                         (real_of_int (rtHeight (fRenderTarget env)))) s))
      else
        (let useCoverageAA = (doAA \<and> \<not> isUnifiedMultisampled (fRenderTarget env));
             hasUserStencilSettings = (\<not> isUnused ss);
             isStencilBufferMSAA = isStencilBufferMultisampled (fRenderTarget env);
             type = (if useCoverageAA then kColorAntiAlias_DrawType else kColor_DrawType);
             shape = GrShape_make path GrStyle_SimpleFill;
             canDrawArgs = \<lparr> cdViewMatrix = viewMatrix, cdShape = shape,
                 cdAntiAlias = useCoverageAA, cdHasUserStencilSettings = hasUserStencilSettings,
                 cdIsStencilBufferMSAA = isStencilBufferMSAA \<rparr>
         in case getPathRenderer env canDrawArgs False type of
              None \<Rightarrow> (False, acf_exit s)
            | Some renderer \<Rightarrow>
                (True, acf_exit (emit (PathRendererDraw renderer
                   \<lparr> dpPaint = GrPaint_default\<lparr> getXPFactory := CoverageSetOpXPFactory op invertCoverage \<rparr>,
                     dpUserStencilSettings = Some ss, dpClip = clip, dpViewMatrix = viewMatrix,
                     dpShape = shape, dpAntiAlias = useCoverageAA \<rparr>) s))))"
  by pat_completeness auto
termination
  by (relation "measure (\<lambda>x. case x of
        Inl (env, clip, ss, op, invertCoverage, doAA, viewMatrix, rect, s) \<Rightarrow> 1
      | Inr (env, clip, ss, op, invertCoverage, doAA, viewMatrix, path, s) \<Rightarrow>
          (if SkPath_isEmpty path then 2 else 0))")
     (auto simp: SkPath_isEmpty_def addRect_def)

declare drawAndStencilRect.simps [simp del] drawAndStencilPath.simps [simp del]

definition drawBatch :: "GrPipelineBuilder \<Rightarrow> GrClip \<Rightarrow> GrBatch \<Rightarrow> DrawContext \<Rightarrow> DrawContext" where
  "drawBatch pipelineBuilder clip batch s =
     (if wasAbandoned s then s
      else onTarget (\<lambda>h. DrawBatch h pipelineBuilder clip batch) s)"

definition CreateWithLocalRect ::
  "Env \<Rightarrow> GrColor \<Rightarrow> SkMatrix \<Rightarrow> SkRect \<Rightarrow> SkRect \<Rightarrow> GrBatch option" where
  "CreateWithLocalRect env color viewMatrix rect localRect =
     (if makesAAFillWithLocalRect (factories env) color viewMatrix rect localRect
      then Some (AAFillRectLocalRectBatch color viewMatrix rect localRect) else None)"

definition fillRectToRect ::
  "Env \<Rightarrow> GrClip \<Rightarrow> GrPaint \<Rightarrow> SkMatrix \<Rightarrow> SkRect \<Rightarrow> SkRect \<Rightarrow> DrawContext \<Rightarrow> DrawContext" where
  "fillRectToRect env clip paint viewMatrix rectToDraw localRect s =
     (if wasAbandoned s then s
      else (case crop_filled_rect env clip viewMatrix rectToDraw (Some localRect) of
              None \<Rightarrow> s
            | Some (croppedRect, cropped) \<Rightarrow>
                acf_exit
                  (let croppedLocalRect = (case cropped of Some l \<Rightarrow> l | None \<Rightarrow> localRect);
                       (h0, s1) = getDrawTarget s
                   in (case (case instancedRendering env of
                               None \<Rightarrow> None
                             | Some ir \<Rightarrow> recordRectLocalRect ir croppedRect viewMatrix
                                 (getColor paint) croppedLocalRect (isAntiAlias paint)) of
                         Some useHWAA \<Rightarrow>
                           onTarget (\<lambda>h. DrawBatch h (GrPipelineBuilder_make paint useHWAA) clip
                             (InstancedRectLocalRectBatch croppedRect viewMatrix (getColor paint)
                                croppedLocalRect (isAntiAlias paint))) s1
                       | None \<Rightarrow>
                           let (coverageAA, useHWAA) =
                                 should_apply_coverage_aa paint (fRenderTarget env)
                           in if coverageAA \<and> view_matrix_ok_for_aa_fill_rect env viewMatrix then
                                (case CreateWithLocalRect env (getColor paint) viewMatrix
                                        croppedRect croppedLocalRect of
                                   Some batch \<Rightarrow>
                                     drawBatch (GrPipelineBuilder_make paint useHWAA) clip batch s1
                                 | None \<Rightarrow> s1)
                              else drawNonAAFilledRect env clip paint viewMatrix croppedRect
                                     (Some croppedLocalRect) None None s1))))"

definition fillRectWithLocalMatrix ::
  "Env \<Rightarrow> GrClip \<Rightarrow> GrPaint \<Rightarrow> SkMatrix \<Rightarrow> SkRect \<Rightarrow> SkMatrix \<Rightarrow> DrawContext \<Rightarrow> DrawContext" where
  "fillRectWithLocalMatrix env clip paint viewMatrix rectToDraw localMatrix s =
     (if wasAbandoned s then s
      else (case crop_filled_rect env clip viewMatrix rectToDraw None of
              None \<Rightarrow> s
            | Some (croppedRect, _) \<Rightarrow>
                acf_exit
                  (let (h0, s1) = getDrawTarget s
                   in (case (case instancedRendering env of
                               None \<Rightarrow> None
                             | Some ir \<Rightarrow> recordRectLocalMatrix ir croppedRect viewMatrix
                                 (getColor paint) localMatrix (isAntiAlias paint)) of
                         Some useHWAA \<Rightarrow>
                           onTarget (\<lambda>h. DrawBatch h (GrPipelineBuilder_make paint useHWAA) clip
                             (InstancedRectLocalMatrixBatch croppedRect viewMatrix (getColor paint)
                                localMatrix (isAntiAlias paint))) s1
                       | None \<Rightarrow>
                           let (coverageAA, useHWAA) =
                                 should_apply_coverage_aa paint (fRenderTarget env)
                           in if coverageAA \<and> view_matrix_ok_for_aa_fill_rect env viewMatrix then
                                onTarget (\<lambda>h. DrawBatch h (GrPipelineBuilder_make paint useHWAA) clip
                                  (AAFillRectLocalMatrixBatch (getColor paint) viewMatrix
                                     localMatrix croppedRect)) s1
                              else drawNonAAFilledRect env clip paint viewMatrix croppedRect
                                     None (Some localMatrix) None s1))))"

definition drawVertices ::
  "Env \<Rightarrow> GrClip \<Rightarrow> GrPaint \<Rightarrow> SkMatrix \<Rightarrow> GrPrimitiveType \<Rightarrow> SkPoint list \<Rightarrow> SkPoint list \<Rightarrow>
   GrColor list \<Rightarrow> nat list \<Rightarrow> DrawContext \<Rightarrow> DrawContext" where
  "drawVertices env clip paint viewMatrix primitiveType positions texCoords colors indices s =
     (if wasAbandoned s then s
      else acf_exit
        (case setBoundsCheck env positions of
           None \<Rightarrow> s
         | Some b0 \<Rightarrow>
             let b1 = mapRect (matrixOps env) viewMatrix b0;
                 bounds = (if \<not> isAntiAlias paint \<or> GrIsPrimTypeLines primitiveType \<or>
                              primitiveType = kPoints_GrPrimitiveType
                           then makeOutset b1 (1 / 2) (1 / 2) else b1);
                 batch = DrawVerticesBatch (getColor paint) primitiveType viewMatrix positions
                           indices colors texCoords bounds
             in onTarget (\<lambda>h. DrawBatch h
                  (GrPipelineBuilder_make paint (mustUseHWAA env paint)) clip batch) s))"

definition drawAtlas ::
  "Env \<Rightarrow> GrClip \<Rightarrow> GrPaint \<Rightarrow> SkMatrix \<Rightarrow> nat \<Rightarrow>
   (SkScalar \<times> SkScalar \<times> SkScalar \<times> SkScalar) list \<Rightarrow> SkRect list \<Rightarrow> GrColor list \<Rightarrow>
   DrawContext \<Rightarrow> DrawContext" where
  "drawAtlas env clip paint viewMatrix spriteCount xform texRect colors s =
     (if wasAbandoned s then s
      else acf_exit
        (onTarget (\<lambda>h. DrawBatch h (GrPipelineBuilder_make paint (mustUseHWAA env paint)) clip
           (DrawAtlasBatch (getColor paint) viewMatrix spriteCount xform texRect colors)) s))"

definition drawImageNine ::
  "Env \<Rightarrow> GrClip \<Rightarrow> GrPaint \<Rightarrow> SkMatrix \<Rightarrow> int \<Rightarrow> int \<Rightarrow> SkIRect \<Rightarrow> SkRect \<Rightarrow>
   DrawContext \<Rightarrow> DrawContext" where
  "drawImageNine env clip paint viewMatrix imageWidth imageHeight center dst s =
     (if wasAbandoned s then s
      else acf_exit
        (onTarget (\<lambda>h. DrawBatch h (GrPipelineBuilder_make paint (mustUseHWAA env paint)) clip
           (NinePatchBatch (getColor paint) viewMatrix imageWidth imageHeight center dst)) s))"

definition drawOval ::
  "Env \<Rightarrow> GrClip \<Rightarrow> GrPaint \<Rightarrow> SkMatrix \<Rightarrow> SkRect \<Rightarrow> GrStyle \<Rightarrow> DrawContext \<Rightarrow> DrawContext" where
  "drawOval env clip paint viewMatrix oval style s =
     (if wasAbandoned s then s
      else if SkRect_isEmpty oval then s
      else acf_exit
        (let stroke = strokeRec style;
             (h0, s1) = getDrawTarget s
         in (case (case instancedRendering env of
                     None \<Rightarrow> None
                   | Some ir \<Rightarrow>
                       if isFillStyle stroke
                       then recordOval ir oval viewMatrix (getColor paint) (isAntiAlias paint)
                       else None) of
               Some useHWAA \<Rightarrow>
                 onTarget (\<lambda>h. DrawBatch h (GrPipelineBuilder_make paint useHWAA) clip
                   (InstancedOvalBatch oval viewMatrix (getColor paint) (isAntiAlias paint))) s1
             | None \<Rightarrow>
                 let (coverageAA, useHWAA) = should_apply_coverage_aa paint (fRenderTarget env) in
                 (case (if coverageAA
                        then CreateOvalBatch env (getColor paint) viewMatrix oval stroke
                        else None) of
                    Some batch \<Rightarrow>
                      onTarget (\<lambda>h. DrawBatch h (GrPipelineBuilder_make paint useHWAA) clip batch) s1
                  | None \<Rightarrow>
                      internalDrawPath env clip paint viewMatrix
                        (addOval oval (setIsVolatile True SkPath_new)) style s1))))"

definition drawFilledDRRect ::
  "Env \<Rightarrow> GrClip \<Rightarrow> GrPaint \<Rightarrow> SkMatrix \<Rightarrow> SkRRect \<Rightarrow> SkRRect \<Rightarrow> DrawContext \<Rightarrow>
   bool \<times> DrawContext" where
  "drawFilledDRRect env clip paintIn viewMatrix origOuter origInner s =
     (let (h0, s1) = getDrawTarget s
      in (case (case instancedRendering env of
                  None \<Rightarrow> None
                | Some ir \<Rightarrow> recordDRRect ir origOuter origInner viewMatrix
                    (getColor paintIn) (isAntiAlias paintIn)) of
            Some useHWAA \<Rightarrow>
              (True, onTarget (\<lambda>h. DrawBatch h (GrPipelineBuilder_make paintIn useHWAA) clip
                 (InstancedDRRectBatch origOuter origInner viewMatrix (getColor paintIn)
                    (isAntiAlias paintIn))) s1)
          | None \<Rightarrow>
              let applyAA = (isAntiAlias paintIn \<and> \<not> isUnifiedMultisampled (fRenderTarget env));
                  innerEdgeType = (if applyAA then kInverseFillAA_GrProcessorEdgeType
                                   else kInverseFillBW_GrProcessorEdgeType);
                  outerEdgeType = (if applyAA then kFillAA_GrProcessorEdgeType
                                   else kFillBW_GrProcessorEdgeType)
              in (case (if \<not> isIdentity (matrixOps env) viewMatrix then
                          (case transformRRect (factories env) origInner viewMatrix of
                             None \<Rightarrow> None
                           | Some inner \<Rightarrow>
                               (case transformRRect (factories env) origOuter viewMatrix of
                                  None \<Rightarrow> None
                                | Some outer \<Rightarrow>
                                    (case invert (matrixOps env) viewMatrix of
                                       None \<Rightarrow> None
                                     | Some inverseVM \<Rightarrow> Some (inner, outer, inverseVM))))
                        else Some (origInner, origOuter, SkMatrix_I)) of
                    None \<Rightarrow> (False, s1)
                  | Some (inner, outer, inverseVM) \<Rightarrow>
                      let grPaint = paintIn\<lparr> isAntiAlias := False \<rparr> in
                      if \<not> makesRRectEffect (factories env) innerEdgeType inner then (False, s1)
                      else if \<not> makesRRectEffect (factories env) outerEdgeType outer then (False, s1)
                      else
                        (let grPaint2 = grPaint\<lparr> coverageFragmentProcessors :=
                               coverageFragmentProcessors grPaint @
                                 [GrRRectEffect innerEdgeType inner, GrRRectEffect outerEdgeType outer] \<rparr>;
                             bounds = (if applyAA then makeOutset (rrBounds outer) (1 / 2) (1 / 2)
                                       else rrBounds outer)
                         in (True, fillRectWithLocalMatrix env clip grPaint2 SkMatrix_I bounds
                                     inverseVM s1)))))"

definition drawDRRect ::
  "Env \<Rightarrow> GrClip \<Rightarrow> GrPaint \<Rightarrow> SkMatrix \<Rightarrow> SkRRect \<Rightarrow> SkRRect \<Rightarrow> DrawContext \<Rightarrow> DrawContext" where
  "drawDRRect env clip paint viewMatrix outer inner s =
     (if wasAbandoned s then s
      else acf_exit
        (case drawFilledDRRect env clip paint viewMatrix outer inner s of
           (True, s1) \<Rightarrow> s1
         | (False, s1) \<Rightarrow>
             internalDrawPath env clip paint viewMatrix
               (setFillType kEvenOdd_FillType
                  (addRRect outer (addRRect inner (setIsVolatile True SkPath_new))))
               GrStyle_SimpleFill s1))"


section \<open>A reference configuration\<close>

text \<open>A concrete instance of the collaborators, used to run the model on concrete draws:
  a 100 by 100 single-sampled target, no instanced renderer, factories that always make their
  batch, affine matrices with their usual algebra, and a path renderer chain of one
  hardware renderer (number 1, for shapes whose style is a simple fill) and the software
  renderer (number 0, offered only when software is allowed).\<close>

fun refInvert :: "SkMatrix \<Rightarrow> SkMatrix option" where
  "refInvert (SkMatrix [sx, kx, tx, ky, sy, ty, p0, p1, p2]) =
     (if p0 \<noteq> 0 \<or> p1 \<noteq> 0 \<or> p2 \<noteq> 1 \<or> sx * sy - kx * ky = 0 then None
      else Some (SkMatrix [sy / (sx * sy - kx * ky), - kx / (sx * sy - kx * ky),
                           (kx * ty - sy * tx) / (sx * sy - kx * ky),
                           - ky / (sx * sy - kx * ky), sx / (sx * sy - kx * ky),
                           (ky * tx - sx * ty) / (sx * sy - kx * ky), 0, 0, 1]))"
| "refInvert _ = None"

fun refRectStaysRect :: "SkMatrix \<Rightarrow> bool" where
  "refRectStaysRect (SkMatrix [sx, kx, tx, ky, sy, ty, p0, p1, p2]) =
     (p0 = 0 \<and> p1 = 0 \<and> p2 = 1 \<and>
      ((kx = 0 \<and> ky = 0 \<and> sx \<noteq> 0 \<and> sy \<noteq> 0) \<or> (sx = 0 \<and> sy = 0 \<and> kx \<noteq> 0 \<and> ky \<noteq> 0)))"
| "refRectStaysRect _ = False"

fun refPreservesRightAngles :: "SkMatrix \<Rightarrow> bool" where
  "refPreservesRightAngles (SkMatrix [sx, kx, tx, ky, sy, ty, p0, p1, p2]) =
     (p0 = 0 \<and> p1 = 0 \<and> p2 = 1 \<and> sx * sy - kx * ky \<noteq> 0 \<and> sx * kx + ky * sy = 0)"
| "refPreservesRightAngles _ = False"

fun refHasPerspective :: "SkMatrix \<Rightarrow> bool" where
  "refHasPerspective (SkMatrix [sx, kx, tx, ky, sy, ty, p0, p1, p2]) =
     (p0 \<noteq> 0 \<or> p1 \<noteq> 0 \<or> p2 \<noteq> 1)"
| "refHasPerspective _ = False"

fun refMapXY :: "SkMatrix \<Rightarrow> SkScalar \<Rightarrow> SkScalar \<Rightarrow> SkPoint" where
  "refMapXY (SkMatrix [sx, kx, tx, ky, sy, ty, p0, p1, p2]) x y =
     \<lparr> fX = sx * x + kx * y + tx, fY = ky * x + sy * y + ty \<rparr>"
| "refMapXY _ x y = \<lparr> fX = x, fY = y \<rparr>"

definition refMapRectToQuad :: "SkMatrix \<Rightarrow> SkRect \<Rightarrow> SkPoint \<times> SkPoint \<times> SkPoint \<times> SkPoint" where
  "refMapRectToQuad m r =
     (refMapXY m (fLeft r) (fTop r), refMapXY m (fRight r) (fTop r),
      refMapXY m (fRight r) (fBottom r), refMapXY m (fLeft r) (fBottom r))"

definition refMapRect :: "SkMatrix \<Rightarrow> SkRect \<Rightarrow> SkRect" where
  "refMapRect m r =
     (case refMapRectToQuad m r of
        (a, b, c, d) \<Rightarrow>
          \<lparr> fLeft = min (min (fX a) (fX b)) (min (fX c) (fX d)),
            fTop = min (min (fY a) (fY b)) (min (fY c) (fY d)),
            fRight = max (max (fX a) (fX b)) (max (fX c) (fX d)),
            fBottom = max (max (fY a) (fY b)) (max (fY c) (fY d)) \<rparr>)"

definition refMatrixOps :: SkMatrixOps where
  "refMatrixOps = \<lparr> invert = refInvert, rectStaysRect = refRectStaysRect,
     preservesRightAngles = refPreservesRightAngles, hasPerspective = refHasPerspective,
     isIdentity = (\<lambda>m. m = SkMatrix_I), mapRect = refMapRect, mapRectToQuad = refMapRectToQuad,
     MatrixToScaleFactor = (\<lambda>m. 1) \<rparr>"

text \<open>\<open>GrNoClip\<close> reports the whole target as its bounds and contains every rect; a clip
  stack is taken to be wide open.\<close>

definition refClipOps :: GrClipOps where
  "refClipOps = \<lparr> quickContains = (\<lambda>clip r. True),
     getConservativeBounds = (\<lambda>clip w h. SkIRect_MakeWH w h) \<rparr>"

definition refFactories :: BatchFactories where
  "refFactories = \<lparr> makesAAFill = (\<lambda>c m r d. True), makesAAFillWithLocalRect = (\<lambda>c m r l. True),
     makesAAStroke = (\<lambda>c m r st. True), makesNonAAStroke = (\<lambda>c m r st sn. True),
     makesAAFillNestedRects = (\<lambda>c m a b. True), makesOvalBatch = (\<lambda>c m r st. True),
     makesRRectBatch = (\<lambda>c m r st. True), makesRRectEffect = (\<lambda>e r. True),
     transformRRect = (\<lambda>r m. if m = SkMatrix_I then Some r else None) \<rparr>"

definition rectContains :: "SkRect \<Rightarrow> SkRect \<Rightarrow> bool" where
  "rectContains a b = (\<not> SkRect_isEmpty a \<and> \<not> SkRect_isEmpty b \<and> fLeft a \<le> fLeft b \<and>
     fTop a \<le> fTop b \<and> fRight a \<ge> fRight b \<and> fBottom a \<ge> fBottom b)"

fun refIsNestedFillRects ::
  "SkPath \<Rightarrow> ((SkRect \<times> SkRect) \<times> (SkPath_Direction \<times> SkPath_Direction)) option" where
  "refIsNestedFillRects path =
     (case contours path of
        [RectContour a da, RectContour b db] \<Rightarrow>
          if rectContains a b then Some ((a, b), (da, db))
          else if rectContains b a then Some ((b, a), (db, da))
          else None
      | _ \<Rightarrow> None)"

definition refPathOps :: SkPathOps where
  "refPathOps = \<lparr> isConvex = (\<lambda>path. length (contours path) \<le> 1),
     isNestedFillRects = refIsNestedFillRects,
     isOval = (\<lambda>path. case contours path of [OvalContour r] \<Rightarrow> Some r | _ \<Rightarrow> None),
     shapeIsEmpty = (\<lambda>sh. SkPath_isEmpty (shapePath sh)),
     applyStyle = (\<lambda>sh a scale.
        if a = kPathEffectOnly
        then sh\<lparr> shapeStyle := (shapeStyle sh)\<lparr> pathEffect := None \<rparr> \<rparr>
        else sh\<lparr> shapeStyle := GrStyle_SimpleFill \<rparr>) \<rparr>"

definition refGetPathRenderer :: "CanDrawPathArgs \<Rightarrow> bool \<Rightarrow> DrawType \<Rightarrow> nat option" where
  "refGetPathRenderer args allowSW drawType =
     (if isSimpleFill (shapeStyle (cdShape args)) then Some 1
      else if allowSW then Some 0 else None)"

definition refEnv :: Env where
  "refEnv = \<lparr> caps = \<lparr> fullClearIsFree = False, useDrawInsteadOfClear = False \<rparr>,
     fRenderTarget = \<lparr> rtWidth = 100, rtHeight = 100, isUnifiedMultisampled = False,
                       isStencilBufferMultisampled = False \<rparr>,
     matrixOps = refMatrixOps, clipOps = refClipOps,
     isConstantBlendedColor = (\<lambda>paint.
        if getXPFactory paint = PorterDuffXPFactory kSrc_Mode \<and>
           coverageFragmentProcessors paint = [] \<and> colorFragmentProcessors paint = []
        then Some (getColor paint) else None),
     instancedRendering = None, factories = refFactories, pathOps = refPathOps,
     getPathRenderer = refGetPathRenderer,
     setBoundsCheck = (\<lambda>pts. Some (SkRect_MakeLTRB 0 0 0 0)),
     targetCopySurface = (\<lambda>src r p. True) \<rparr>"

text \<open>The same backend with the must-draw-instead-of-clear workaround switched on.\<close>

definition drawInsteadEnv :: Env where
  "drawInsteadEnv = refEnv\<lparr> caps := \<lparr> fullClearIsFree = False, useDrawInsteadOfClear = True \<rparr> \<rparr>"

text \<open>A fresh, live draw context: nothing issued, nothing submitted.\<close>

definition freshContext :: DrawContext where
  "freshContext = GrDrawContext_new False None 0 []"

definition srcPaint :: "GrColor \<Rightarrow> GrPaint" where
  "srcPaint color = GrPaint_default\<lparr> getColor := color,
     getXPFactory := PorterDuffXPFactory kSrc_Mode \<rparr>"


definition strokeStyle :: "SkPaint_Join \<Rightarrow> SkScalar \<Rightarrow> GrStyle" where
  "strokeStyle join w = \<lparr> strokeRec = \<lparr> getStyle = kStroke_Style, getWidth = w, getJoin = join,
     getCap = kButt_Cap \<rparr>, pathEffect = None \<rparr>"

text \<open>A rotation by 45 degrees (with a uniform scale), which keeps right angles but not
  axis-aligned rects, and a horizontal skew, which keeps neither.\<close>

definition rot45 :: SkMatrix where
  "rot45 = SkMatrix [1, -1, 0, 1, 1, 0, 0, 0, 1]"

definition skewMatrix :: SkMatrix where
  "skewMatrix = SkMatrix [1, 1, 0, 0, 1, 0, 0, 0, 1]"

text \<open>A path effect that leaves nothing of the path (a dash pattern longer than the path,
  say), in the same backend.\<close>

definition dashEnv :: Env where
  "dashEnv = refEnv\<lparr> pathOps := refPathOps\<lparr> applyStyle := (\<lambda>sh a scale.
      if a = kPathEffectOnly
      then \<lparr> shapePath = (shapePath sh)\<lparr> contours := [] \<rparr>,
             shapeStyle = (shapeStyle sh)\<lparr> pathEffect := None \<rparr> \<rparr>
      else sh\<lparr> shapeStyle := GrStyle_SimpleFill \<rparr>) \<rparr> \<rparr>"

text \<open>The same backend with a renderer chain that accepts nothing.\<close>

definition noRendererEnv :: Env where
  "noRendererEnv = refEnv\<lparr> getPathRenderer := (\<lambda>args allowSW drawType. None) \<rparr>"

definition effectFill :: GrStyle where
  "effectFill = GrStyle_SimpleFill\<lparr> pathEffect := Some 3 \<rparr>"

definition somePath :: SkPath where
  "somePath = \<lparr> contours = [OtherContour 0], getFillType = kWinding_FillType, isVolatile = False \<rparr>"

definition nestedRects ::
  "SkRect \<Rightarrow> SkPath_Direction \<Rightarrow> SkRect \<Rightarrow> SkPath_Direction \<Rightarrow> SkPath_FillType \<Rightarrow> SkPath" where
  "nestedRects a da b db ft =
     \<lparr> contours = [RectContour a da, RectContour b db], getFillType = ft, isVolatile = False \<rparr>"

definition aaPaint :: GrPaint where
  "aaPaint = (srcPaint 5)\<lparr> isAntiAlias := True \<rparr>"

definition abandonedContext :: DrawContext where
  "abandonedContext = freshContext\<lparr> wasAbandoned := True \<rparr>"

section \<open>Properties of states and events\<close>

text \<open>A submitted event that is a nested-rect antialiased fill batch.\<close>

fun isNestedRectsEvent :: "Event \<Rightarrow> bool" where
  "isNestedRectsEvent (DrawBatch h pb clip (AAFillNestedRectsBatch color m outer inner)) = True"
| "isNestedRectsEvent _ = False"

text \<open>\<open>validate\<close> is the source's debug check: the held draw target, when non-null and open,
  is the render target's last draw target.\<close>

definition validate :: "DrawContext \<Rightarrow> bool" where
  "validate s = (case fDrawTarget s of
                   None \<Rightarrow> True
                 | Some held \<Rightarrow> \<not> isClosed s held \<longrightarrow> lastDrawTarget s = Some held)"

text \<open>Every closed target is one the manager has issued.\<close>

definition closedWereIssued :: "DrawContext \<Rightarrow> bool" where
  "closedWereIssued s = (\<forall>h \<in> set (closedTargets s). h < issuedTargets s)"

text \<open>The two together are what every operation maintains.\<close>

definition consistent :: "DrawContext \<Rightarrow> bool" where
  "consistent s = (validate s \<and> closedWereIssued s)"

text \<open>A context whose held target (number 0) has been closed, after another context has been
  issued target 1 for the same render target.\<close>

definition staleContext :: DrawContext where
  "staleContext = freshContext\<lparr> fDrawTarget := Some 0, lastDrawTarget := Some 1,
     issuedTargets := 2, closedTargets := [0] \<rparr>"

text \<open>The operations of the draw context, as one type, and their execution.\<close>

datatype Call =
    GetDrawTargetCall
  | CopySurfaceCall nat SkIRect "int \<times> int"
  | AtlasTextCall TextCall
  | DiscardCall
  | ClearCall "SkIRect option" GrColor bool
  | DrawPaintCall GrClip GrPaint SkMatrix
  | DrawRectCall GrClip GrPaint SkMatrix SkRect "GrStyle option"
  | ClearStencilClipCall SkIRect bool
  | StencilPathCall GrClip nat bool SkMatrix nat
  | StencilRectCall GrClip nat bool SkMatrix SkRect
  | DrawAndStencilRectCall GrClip nat SkRegionOp bool bool SkMatrix SkRect
  | DrawAndStencilPathCall GrClip nat SkRegionOp bool bool SkMatrix SkPath
  | FillRectToRectCall GrClip GrPaint SkMatrix SkRect SkRect
  | FillRectWithLocalMatrixCall GrClip GrPaint SkMatrix SkRect SkMatrix
  | DrawVerticesCall GrClip GrPaint SkMatrix GrPrimitiveType "SkPoint list" "SkPoint list"
      "GrColor list" "nat list"
  | DrawAtlasCall GrClip GrPaint SkMatrix nat
      "(SkScalar \<times> SkScalar \<times> SkScalar \<times> SkScalar) list" "SkRect list" "GrColor list"
  | DrawRRectCall GrClip GrPaint SkMatrix SkRRect GrStyle
  | DrawDRRectCall GrClip GrPaint SkMatrix SkRRect SkRRect
  | DrawOvalCall GrClip GrPaint SkMatrix SkRect GrStyle
  | DrawImageNineCall GrClip GrPaint SkMatrix int int SkIRect SkRect
  | DrawPathCall GrClip GrPaint SkMatrix SkPath GrStyle
  | InternalDrawPathCall GrClip GrPaint SkMatrix SkPath GrStyle
  | DrawBatchCall GrPipelineBuilder GrClip GrBatch

fun perform :: "Env \<Rightarrow> Call \<Rightarrow> DrawContext \<Rightarrow> DrawContext" where
  "perform env GetDrawTargetCall s = snd (getDrawTarget s)"
| "perform env (CopySurfaceCall src srcRect dstPoint) s = snd (copySurface env src srcRect dstPoint s)"
| "perform env (AtlasTextCall (DrawText clip grPaint skPaint m txt x y clipBounds)) s =
     drawText clip grPaint skPaint m txt x y clipBounds s"
| "perform env (AtlasTextCall (DrawPosText clip grPaint skPaint m txt pos n offset clipBounds)) s =
     drawPosText clip grPaint skPaint m txt pos n offset clipBounds s"
| "perform env (AtlasTextCall (DrawTextBlob clip skPaint m blob x y drawFilter clipBounds)) s =
     drawTextBlob clip skPaint m blob x y drawFilter clipBounds s"
| "perform env DiscardCall s = discard s"
| "perform env (ClearCall rect color canIgnoreRect) s = clear env rect color canIgnoreRect s"
| "perform env (DrawPaintCall clip paint m) s = drawPaint env clip paint m s"
| "perform env (DrawRectCall clip paint m rect style) s = drawRect env clip paint m rect style s"
| "perform env (ClearStencilClipCall rect insideClip) s = clearStencilClip rect insideClip s"
| "perform env (StencilPathCall clip ss useHWAA m path) s = stencilPath clip ss useHWAA m path s"
| "perform env (StencilRectCall clip ss useHWAA m rect) s = stencilRect env clip ss useHWAA m rect s"
| "perform env (DrawAndStencilRectCall clip ss op invertCoverage doAA m rect) s =
     snd (drawAndStencilRect env clip ss op invertCoverage doAA m rect s)"
| "perform env (DrawAndStencilPathCall clip ss op invertCoverage doAA m path) s =
     snd (drawAndStencilPath env clip ss op invertCoverage doAA m path s)"
| "perform env (FillRectToRectCall clip paint m rect localRect) s =
     fillRectToRect env clip paint m rect localRect s"
| "perform env (FillRectWithLocalMatrixCall clip paint m rect localMatrix) s =
     fillRectWithLocalMatrix env clip paint m rect localMatrix s"
| "perform env (DrawVerticesCall clip paint m primitiveType positions texCoords colors indices) s =
     drawVertices env clip paint m primitiveType positions texCoords colors indices s"
| "perform env (DrawAtlasCall clip paint m spriteCount xform texRect colors) s =
     drawAtlas env clip paint m spriteCount xform texRect colors s"
| "perform env (DrawRRectCall clip paint m rrect style) s = drawRRect env clip paint m rrect style s"
| "perform env (DrawDRRectCall clip paint m outer inner) s = drawDRRect env clip paint m outer inner s"
| "perform env (DrawOvalCall clip paint m oval style) s = drawOval env clip paint m oval style s"
| "perform env (DrawImageNineCall clip paint m w h center dst) s =
     drawImageNine env clip paint m w h center dst s"
| "perform env (DrawPathCall clip paint m path style) s = drawPath env clip paint m path style s"
| "perform env (InternalDrawPathCall clip paint m path style) s =
     internalDrawPath env clip paint m path style s"
| "perform env (DrawBatchCall pipelineBuilder clip batch) s = drawBatch pipelineBuilder clip batch s"

section \<open>Basic facts\<close>

lemmas geom_defs = SkIRect_MakeWH_def SkIRect_isEmpty_def SkIRect_contains_def SkIRect_intersect_def
  SkRect_Make_def SkRect_MakeLTRB_def width_def height_def SkRect_isEmpty_def SkRect_intersects_def
  SkRect_intersect_def makeOutset_def SkRRect_MakeRectXY_def SkRRect_isEmpty_def getBoundsRect_def
  rect_contains_inclusive_def

lemmas target_defs = getDrawTarget_def newDrawTarget_def isClosed_def emit_def onTarget_def
  acf_exit_def discard_def

lemmas ref_defs = refEnv_def drawInsteadEnv_def refMatrixOps_def refClipOps_def refFactories_def
  refPathOps_def refGetPathRenderer_def freshContext_def GrDrawContext_new_def srcPaint_def
  GrPaint_default_def
  SkMatrix_I_def refMapRect_def refMapRectToQuad_def rectContains_def strokeStyle_def
  rot45_def skewMatrix_def dashEnv_def noRendererEnv_def effectFill_def
  somePath_def nestedRects_def aaPaint_def abandonedContext_def

lemmas draw_defs = drawFilledRect_def crop_filled_rect_def drawNonAAFilledRect_def
  should_apply_coverage_aa_def view_matrix_ok_for_aa_fill_rect_def mustUseHWAA_def
  GrPipelineBuilder_make_def setUserStencilIf_def CreateAAFill_def GrStyle_SimpleFill_def
  internalDrawPath_def drawRRect_def CreateRRectBatch_def CreateAAStroke_def CreateNonAAStroke_def
  isFillStyle_def isSimpleFill_def applies_def GrShape_make_def
  SkPath_new_def setIsVolatile_def addRect_def addRRect_def SkPath_isEmpty_def

lemma submitted_acf_exit [simp]: "submitted (acf_exit s) = submitted s"
  by (simp add: acf_exit_def)

lemma drawRect_abandoned: "wasAbandoned s \<Longrightarrow> drawRect env clip paint vm rect st s = s"
  by (subst drawRect.simps) simp

lemma clear_abandoned: "wasAbandoned s \<Longrightarrow> clear env rect color canIgnoreRect s = s"
  by (subst clear.simps) simp

lemma getDrawTarget_keeps:
  "submitted (snd (getDrawTarget s)) = submitted s"
  "wasAbandoned (snd (getDrawTarget s)) = wasAbandoned s"
  "flushChecks (snd (getDrawTarget s)) = flushChecks s"
  "closedTargets (snd (getDrawTarget s)) = closedTargets s"
  "fAtlasTextContext (snd (getDrawTarget s)) = fAtlasTextContext s"
  by (simp_all add: getDrawTarget_def newDrawTarget_def split: option.splits)

lemma onTarget_submitted: "\<exists>h. submitted (onTarget ev s) = submitted s @ [ev h]"
  by (cases "getDrawTarget s") (auto simp add: onTarget_def emit_def getDrawTarget_keeps(1) [of s, symmetric])

lemma onTarget_wasAbandoned [simp]: "wasAbandoned (onTarget ev s) = wasAbandoned s"
  by (cases "getDrawTarget s") (simp add: onTarget_def emit_def getDrawTarget_keeps(2) [of s, symmetric])

lemma acf_exit_wasAbandoned [simp]: "wasAbandoned (acf_exit s) = wasAbandoned s"
  by (simp add: acf_exit_def)

lemma discard_submitted:
  "\<not> wasAbandoned s \<Longrightarrow> \<exists>h. submitted (discard s) = submitted s @ [Discard h]"
  using onTarget_submitted [of Discard s] by (simp add: discard_def)

lemma discard_wasAbandoned [simp]: "wasAbandoned (discard s) = wasAbandoned s"
  by (simp add: discard_def)


section \<open>Degenerate strokes\<close>

lemma drawRect_stroke_miter:
  assumes "getStyle (strokeRec style) = kStroke_Style" and "getJoin (strokeRec style) = kMiter_Join"
    and "width rect = 0 \<or> height rect = 0"
  shows "drawRect env clip paint vm rect (Some style) s =
    (if wasAbandoned s then s
     else acf_exit (drawRect env clip paint vm
        (makeOutset rect (getWidth (strokeRec style) / 2) (getWidth (strokeRec style) / 2))
        (Some GrStyle_SimpleFill) s))"
  using assms by (subst drawRect.simps) (auto simp add: Let_def makeOutset_def SkRect_MakeLTRB_def)

text \<open>Claim C3, as the code has it: a stroke-style \<open>drawRect\<close> of a zero-height rect with miter
  joins and stroke half-width \<open>r\<close> submits exactly what the fill-style \<open>drawRect\<close> of the rect
  outset by \<open>r\<close> on both axes submits.\<close>

theorem drawRect_zero_height_miter_stroke:
  assumes "getStyle (strokeRec style) = kStroke_Style"
    and "getJoin (strokeRec style) = kMiter_Join"
    and "height rect = 0"
    and "r = getWidth (strokeRec style) / 2"
  shows "submitted (drawRect env clip paint viewMatrix rect (Some style) s) =
         submitted (drawRect env clip paint viewMatrix (makeOutset rect r r)
                      (Some GrStyle_SimpleFill) s)"
  using assms(1-3) unfolding assms(4) by (simp add: drawRect_stroke_miter drawRect_abandoned)

text \<open>Claim C3 as stated (outset on the vertical axis only) fails: stroking the zero-height rect
  \<open>(10, 50, 20, 50)\<close> with width 4 and miter joins does not submit what filling
  \<open>(10, 48, 20, 52)\<close> submits.\<close>

theorem zero_height_miter_counterexample:
  "submitted (drawRect refEnv GrNoClip (srcPaint 5) SkMatrix_I (SkRect_MakeLTRB 10 50 20 50)
      (Some (strokeStyle kMiter_Join 4)) freshContext) \<noteq>
   submitted (drawRect refEnv GrNoClip (srcPaint 5) SkMatrix_I
      (makeOutset (SkRect_MakeLTRB 10 50 20 50) 0 2) (Some GrStyle_SimpleFill) freshContext)"
  by (simp add: drawRect.simps geom_defs target_defs ref_defs draw_defs)

theorem drawRect_zero_height_miter_stroke_witness:
  "getStyle (strokeRec (strokeStyle kMiter_Join 4)) = kStroke_Style \<and>
   getJoin (strokeRec (strokeStyle kMiter_Join 4)) = kMiter_Join \<and>
   height (SkRect_MakeLTRB 10 50 20 50) = 0 \<and>
   submitted (drawRect refEnv GrNoClip (srcPaint 5) SkMatrix_I (SkRect_MakeLTRB 10 50 20 50)
      (Some (strokeStyle kMiter_Join 4)) freshContext) =
   submitted (drawRect refEnv GrNoClip (srcPaint 5) SkMatrix_I
      (makeOutset (SkRect_MakeLTRB 10 50 20 50) 2 2) (Some GrStyle_SimpleFill) freshContext) \<and>
   submitted (drawRect refEnv GrNoClip (srcPaint 5) SkMatrix_I
      (makeOutset (SkRect_MakeLTRB 10 50 20 50) 2 2) (Some GrStyle_SimpleFill) freshContext) =
   [DrawBatch 0 (GrPipelineBuilder_make (srcPaint 5) False) GrNoClip
       (NonAAFillRectBatch 5 SkMatrix_I (SkRect_MakeLTRB 8 48 22 52) None None)]"
proof -
  have st: "getStyle (strokeRec (strokeStyle kMiter_Join 4)) = kStroke_Style"
    and jn: "getJoin (strokeRec (strokeStyle kMiter_Join 4)) = kMiter_Join"
    and w: "(2::real) = getWidth (strokeRec (strokeStyle kMiter_Join 4)) / 2"
    by (simp_all add: strokeStyle_def)
  have h: "height (SkRect_MakeLTRB 10 50 20 50) = 0"
    by (simp add: height_def SkRect_MakeLTRB_def)
  have ev: "submitted (drawRect refEnv GrNoClip (srcPaint 5) SkMatrix_I
      (makeOutset (SkRect_MakeLTRB 10 50 20 50) 2 2) (Some GrStyle_SimpleFill) freshContext) =
   [DrawBatch 0 (GrPipelineBuilder_make (srcPaint 5) False) GrNoClip
       (NonAAFillRectBatch 5 SkMatrix_I (SkRect_MakeLTRB 8 48 22 52) None None)]"
    by (simp add: drawRect.simps geom_defs target_defs ref_defs draw_defs)
  from drawRect_zero_height_miter_stroke
         [OF st jn h w, of refEnv GrNoClip "srcPaint 5" SkMatrix_I freshContext]
  show ?thesis using st jn h ev by simp
qed


lemma drawRect_stroke_round_point:
  assumes "getStyle (strokeRec style) = kStroke_Style" and "getJoin (strokeRec style) = kRound_Join"
    and "width rect = 0" and "height rect = 0"
  shows "drawRect env clip paint vm rect (Some style) s =
    (if wasAbandoned s then s
     else acf_exit (drawRect env clip paint vm
        (makeOutset rect (getWidth (strokeRec style) / 2) 0) (Some GrStyle_SimpleFill) s))"
  using assms by (subst drawRect.simps) (auto simp add: Let_def makeOutset_def SkRect_MakeLTRB_def)

lemma drawRect_stroke_bevel_zero_width:
  assumes "getStyle (strokeRec style) = kStroke_Style" and "getJoin (strokeRec style) = kBevel_Join"
    and "width rect = 0"
  shows "drawRect env clip paint vm rect (Some style) s =
    (if wasAbandoned s then s
     else acf_exit (drawRect env clip paint vm
        (makeOutset rect (getWidth (strokeRec style) / 2) 0) (Some GrStyle_SimpleFill) s))"
  using assms by (subst drawRect.simps) (auto simp add: Let_def makeOutset_def SkRect_MakeLTRB_def)

text \<open>Claim C10, as the code has it: a stroke-style \<open>drawRect\<close> of a rect of zero width and
  zero height with round joins falls through to the bevel-join handling. It does what the same
  call with bevel joins does, and submits exactly what the fill-style \<open>drawRect\<close> of the rect
  expanded horizontally by half the stroke width submits.\<close>

theorem drawRect_point_round_stroke:
  assumes "getStyle (strokeRec style) = kStroke_Style"
    and "getJoin (strokeRec style) = kRound_Join"
    and "width rect = 0" and "height rect = 0"
    and "r = getWidth (strokeRec style) / 2"
  shows "drawRect env clip paint viewMatrix rect (Some style) s =
           drawRect env clip paint viewMatrix rect
             (Some (style\<lparr> strokeRec := (strokeRec style)\<lparr> getJoin := kBevel_Join \<rparr> \<rparr>)) s \<and>
         submitted (drawRect env clip paint viewMatrix rect (Some style) s) =
           submitted (drawRect env clip paint viewMatrix (makeOutset rect r 0)
                        (Some GrStyle_SimpleFill) s)"
  using assms(1-4) unfolding assms(5)
  by (simp add: drawRect_stroke_round_point drawRect_stroke_bevel_zero_width drawRect_abandoned)

text \<open>Claim C10 as stated ("the call is not a no-op") fails: under the identity matrix the
  expanded rect has zero height, the filled-rect path crops it away, and the call leaves the
  draw context as it was but for two flush checkpoints. Nothing is submitted and no draw target
  is requested.\<close>

theorem point_round_stroke_counterexample:
  "drawRect refEnv GrNoClip (srcPaint 5) SkMatrix_I (SkRect_MakeLTRB 10 50 10 50)
      (Some (strokeStyle kRound_Join 4)) freshContext = freshContext\<lparr> flushChecks := 2 \<rparr>"
  by (simp add: drawRect.simps geom_defs target_defs ref_defs draw_defs)

text \<open>Under a transform that does not keep rects, the zero-height rect does reach the
  draw target.\<close>

theorem drawRect_point_round_stroke_witness:
  "submitted (drawRect refEnv GrNoClip (srcPaint 5) rot45 (SkRect_MakeLTRB 10 50 10 50)
      (Some (strokeStyle kRound_Join 4)) freshContext) =
   [DrawBatch 0 (GrPipelineBuilder_make (srcPaint 5) False) GrNoClip
      (NonAAFillRectBatch 5 rot45 (SkRect_MakeLTRB 8 50 12 50) None None)]"
proof -
  have st: "getStyle (strokeRec (strokeStyle kRound_Join 4)) = kStroke_Style"
    and jn: "getJoin (strokeRec (strokeStyle kRound_Join 4)) = kRound_Join"
    and r: "(2::real) = getWidth (strokeRec (strokeStyle kRound_Join 4)) / 2"
    by (simp_all add: strokeStyle_def)
  have w: "width (SkRect_MakeLTRB 10 50 10 50) = 0" and h: "height (SkRect_MakeLTRB 10 50 10 50) = 0"
    by (simp_all add: width_def height_def SkRect_MakeLTRB_def)
  have ev: "submitted (drawRect refEnv GrNoClip (srcPaint 5) rot45
      (makeOutset (SkRect_MakeLTRB 10 50 10 50) 2 0) (Some GrStyle_SimpleFill) freshContext) =
   [DrawBatch 0 (GrPipelineBuilder_make (srcPaint 5) False) GrNoClip
      (NonAAFillRectBatch 5 rot45 (SkRect_MakeLTRB 8 50 12 50) None None)]"
    by (simp add: drawRect.simps geom_defs target_defs ref_defs draw_defs)
  from drawRect_point_round_stroke
         [OF st jn w h r, of refEnv GrNoClip "srcPaint 5" rot45 freshContext, THEN conjunct2]
  show ?thesis using ev by simp
qed

section \<open>A fill that covers the target\<close>

lemma drawRect_fill_clear:
  assumes "\<not> useDrawInsteadOfClear (caps env)"
    and "getStyle (strokeRec (case stylePtr of None \<Rightarrow> GrStyle_SimpleFill | Some st \<Rightarrow> st)) = kFill_Style"
    and "quickContains (clipOps env) clip (getBoundsRect (fRenderTarget env))"
    and "invert (matrixOps env) vm = Some invM"
    and "mapRectToQuad (matrixOps env) invM (getBoundsRect (fRenderTarget env)) = (q0, q1, q2, q3)"
    and "rect_contains_inclusive rect q0" and "rect_contains_inclusive rect q1"
    and "rect_contains_inclusive rect q2" and "rect_contains_inclusive rect q3"
    and "isConstantBlendedColor env paint = Some C"
  shows "drawRect env clip paint vm rect stylePtr s =
    (if wasAbandoned s then s else acf_exit (clear env None C True s))"
  using assms by (subst drawRect.simps) (simp add: Let_def)

text \<open>Claim C1, as the code has it: on a backend that does not have to draw instead of
  clearing, a fill-style \<open>drawRect\<close> whose clip contains the whole target, whose view matrix is
  invertible, whose rect contains the four inverse-mapped corners of the target and whose paint
  reduces to the constant color \<open>C\<close> leaves the draw context exactly as \<open>clear(null, C, true)\<close>
  does (same batch, same draw target), except that the flush checkpoint fires once more on a live
  context: \<open>drawRect\<close>'s own scope encloses \<open>clear\<close>'s.\<close>

theorem drawRect_covering_target_is_clear:
  assumes "\<not> useDrawInsteadOfClear (caps env)"
    and "getStyle (strokeRec (case stylePtr of None \<Rightarrow> GrStyle_SimpleFill | Some st \<Rightarrow> st)) = kFill_Style"
    and "quickContains (clipOps env) clip (getBoundsRect (fRenderTarget env))"
    and "invert (matrixOps env) viewMatrix = Some invM"
    and "mapRectToQuad (matrixOps env) invM (getBoundsRect (fRenderTarget env)) = (q0, q1, q2, q3)"
    and "rect_contains_inclusive rect q0" and "rect_contains_inclusive rect q1"
    and "rect_contains_inclusive rect q2" and "rect_contains_inclusive rect q3"
    and "isConstantBlendedColor env paint = Some C"
  shows "drawRect env clip paint viewMatrix rect stylePtr s =
           (clear env None C True s)
             \<lparr> flushChecks := flushChecks (clear env None C True s) +
                                (if wasAbandoned s then 0 else 1) \<rparr>"
  by (simp add: drawRect_fill_clear [OF assms] clear_abandoned acf_exit_def)

text \<open>Claim C1 as stated fails on a backend that must draw instead of clearing: there the
  fill-style \<open>drawRect\<close> never turns into a clear. With every premise of the claim true,
  \<open>drawRect\<close> submits one filled rect under the caller's clip, while \<open>clear(null, C, true)\<close>
  discards the target and draws under no clip. On the other backends the two calls differ in the
  number of flush checkpoints.\<close>

theorem drawRect_covering_target_counterexample:
  "quickContains (clipOps drawInsteadEnv) (GrClipStack 0) (getBoundsRect (fRenderTarget drawInsteadEnv)) \<and>
   invert (matrixOps drawInsteadEnv) SkMatrix_I = Some SkMatrix_I \<and>
   mapRectToQuad (matrixOps drawInsteadEnv) SkMatrix_I (getBoundsRect (fRenderTarget drawInsteadEnv)) =
     (\<lparr>fX = 0, fY = 0\<rparr>, \<lparr>fX = 100, fY = 0\<rparr>, \<lparr>fX = 100, fY = 100\<rparr>, \<lparr>fX = 0, fY = 100\<rparr>) \<and>
   rect_contains_inclusive (SkRect_MakeLTRB 0 0 100 100) \<lparr>fX = 0, fY = 0\<rparr> \<and>
   rect_contains_inclusive (SkRect_MakeLTRB 0 0 100 100) \<lparr>fX = 100, fY = 0\<rparr> \<and>
   rect_contains_inclusive (SkRect_MakeLTRB 0 0 100 100) \<lparr>fX = 100, fY = 100\<rparr> \<and>
   rect_contains_inclusive (SkRect_MakeLTRB 0 0 100 100) \<lparr>fX = 0, fY = 100\<rparr> \<and>
   isConstantBlendedColor drawInsteadEnv (srcPaint 5) = Some 5 \<and>
   submitted (drawRect drawInsteadEnv (GrClipStack 0) (srcPaint 5) SkMatrix_I
      (SkRect_MakeLTRB 0 0 100 100) None freshContext) =
     [DrawBatch 0 (GrPipelineBuilder_make (srcPaint 5) False) (GrClipStack 0)
        (NonAAFillRectBatch 5 SkMatrix_I (SkRect_MakeLTRB 0 0 100 100) None None)] \<and>
   submitted (clear drawInsteadEnv None 5 True freshContext) =
     [Discard 0,
      DrawBatch 0 (GrPipelineBuilder_make (srcPaint 5) False) GrNoClip
        (NonAAFillRectBatch 5 SkMatrix_I (SkRect_MakeLTRB 0 0 100 100) None None)] \<and>
   flushChecks (drawRect refEnv (GrClipStack 0) (srcPaint 5) SkMatrix_I
      (SkRect_MakeLTRB 0 0 100 100) None freshContext) = 2 \<and>
   flushChecks (clear refEnv None 5 True freshContext) = 1"
  by (simp add: drawRect.simps clear.simps geom_defs target_defs ref_defs draw_defs)

theorem drawRect_covering_target_is_clear_witness:
  "drawRect refEnv (GrClipStack 0) (srcPaint 5) SkMatrix_I (SkRect_MakeLTRB 0 0 100 100) None
     freshContext =
   (clear refEnv None 5 True freshContext)\<lparr> flushChecks := 2 \<rparr> \<and>
   submitted (clear refEnv None 5 True freshContext) =
     [AddBatch 0 (GrClearBatch (SkIRect_MakeWH 100 100) 5)]"
proof -
  have a1: "\<not> useDrawInsteadOfClear (caps refEnv)" by (simp add: refEnv_def)
  have a2: "getStyle (strokeRec (case None of None \<Rightarrow> GrStyle_SimpleFill | Some st \<Rightarrow> st)) = kFill_Style"
    by (simp add: GrStyle_SimpleFill_def)
  have a3: "quickContains (clipOps refEnv) (GrClipStack 0) (getBoundsRect (fRenderTarget refEnv))"
    by (simp add: refEnv_def refClipOps_def)
  have a4: "invert (matrixOps refEnv) SkMatrix_I = Some SkMatrix_I"
    by (simp add: refEnv_def refMatrixOps_def SkMatrix_I_def)
  have a5: "mapRectToQuad (matrixOps refEnv) SkMatrix_I (getBoundsRect (fRenderTarget refEnv)) =
     (\<lparr>fX = 0, fY = 0\<rparr>, \<lparr>fX = 100, fY = 0\<rparr>, \<lparr>fX = 100, fY = 100\<rparr>, \<lparr>fX = 0, fY = 100\<rparr>)"
    by (simp add: refEnv_def refMatrixOps_def SkMatrix_I_def refMapRectToQuad_def getBoundsRect_def
          SkRect_MakeLTRB_def)
  have a6: "rect_contains_inclusive (SkRect_MakeLTRB 0 0 100 100) \<lparr>fX = 0, fY = 0\<rparr>"
    and a7: "rect_contains_inclusive (SkRect_MakeLTRB 0 0 100 100) \<lparr>fX = 100, fY = 0\<rparr>"
    and a8: "rect_contains_inclusive (SkRect_MakeLTRB 0 0 100 100) \<lparr>fX = 100, fY = 100\<rparr>"
    and a9: "rect_contains_inclusive (SkRect_MakeLTRB 0 0 100 100) \<lparr>fX = 0, fY = 100\<rparr>"
    by (simp_all add: rect_contains_inclusive_def SkRect_MakeLTRB_def)
  have a10: "isConstantBlendedColor refEnv (srcPaint 5) = Some 5"
    by (simp add: refEnv_def srcPaint_def GrPaint_default_def)
  have ev: "clear refEnv None 5 True freshContext =
     freshContext\<lparr> fDrawTarget := Some 0, lastDrawTarget := Some 0, issuedTargets := 1,
        submitted := [AddBatch 0 (GrClearBatch (SkIRect_MakeWH 100 100) 5)], flushChecks := 1 \<rparr>"
    by (simp add: clear.simps geom_defs target_defs ref_defs)
  from drawRect_covering_target_is_clear [OF a1 a2 a3 a4 a5 a6 a7 a8 a9 a10, of freshContext]
  show ?thesis using ev by (simp add: freshContext_def GrDrawContext_new_def)
qed

section \<open>Clearing\<close>

text \<open>Claim C5: \<open>clear\<close> works on the whole-target rect when \<open>rect\<close> is null, or
  \<open>canIgnoreRect\<close> holds on a backend whose full clears are free, or \<open>rect\<close> contains the
  target; otherwise it works on the intersection of \<open>rect\<close> with the target bounds, and when
  that intersection is empty it submits nothing: the draw context is left as it was (on a live
  context the flush checkpoint of the call's scope still fires).
  \<open>clearOn r w\<close> is what the call does with the chosen rect \<open>r\<close>; \<open>w\<close> says whether it is
  the whole-target rect.\<close>

theorem clear_rect_selection:
  fixes env :: Env and rect color canIgnoreRect s
  defines "rtRect \<equiv> SkIRect_MakeWH (rtWidth (fRenderTarget env)) (rtHeight (fRenderTarget env))"
  defines "clearOn \<equiv> \<lambda>r wholeTarget.
     (if wasAbandoned s then s
      else acf_exit
        (if useDrawInsteadOfClear (caps env)
         then drawRect env GrNoClip (srcPaint color) SkMatrix_I (SkRect_Make r) None
                (if wholeTarget then discard s else s)
         else onTarget (\<lambda>h. AddBatch h (GrClearBatch r color)) s))"
  shows "(rect = None \<longrightarrow> clear env rect color canIgnoreRect s = clearOn rtRect True) \<and>
         (\<forall>given. rect = Some given \<longrightarrow>
            (if (canIgnoreRect \<and> fullClearIsFree (caps env)) \<or> SkIRect_contains given rtRect
             then clear env rect color canIgnoreRect s = clearOn rtRect True
             else (case SkIRect_intersect given rtRect of
                     None \<Rightarrow> clear env rect color canIgnoreRect s =
                               (if wasAbandoned s then s else acf_exit s) \<and>
                             submitted (clear env rect color canIgnoreRect s) = submitted s
                   | Some clippedRect \<Rightarrow>
                       clear env rect color canIgnoreRect s = clearOn clippedRect False)))"
  unfolding rtRect_def clearOn_def
  by (auto simp add: clear.simps srcPaint_def split: option.splits)

theorem clear_rect_selection_witness:
  "clear refEnv None 5 False freshContext =
     freshContext\<lparr> fDrawTarget := Some 0, lastDrawTarget := Some 0, issuedTargets := 1,
        submitted := [AddBatch 0 (GrClearBatch (SkIRect_MakeWH 100 100) 5)], flushChecks := 1 \<rparr> \<and>
   clear refEnv (Some \<lparr> iLeft = -5, iTop = 0, iRight = 100, iBottom = 120 \<rparr>) 5 False freshContext =
     freshContext\<lparr> fDrawTarget := Some 0, lastDrawTarget := Some 0, issuedTargets := 1,
        submitted := [AddBatch 0 (GrClearBatch (SkIRect_MakeWH 100 100) 5)], flushChecks := 1 \<rparr> \<and>
   clear refEnv (Some \<lparr> iLeft = 10, iTop = 10, iRight = 150, iBottom = 50 \<rparr>) 5 True freshContext =
     freshContext\<lparr> fDrawTarget := Some 0, lastDrawTarget := Some 0, issuedTargets := 1,
        submitted := [AddBatch 0 (GrClearBatch \<lparr> iLeft = 10, iTop = 10, iRight = 100, iBottom = 50 \<rparr> 5)],
        flushChecks := 1 \<rparr> \<and>
   clear refEnv (Some \<lparr> iLeft = 200, iTop = 200, iRight = 300, iBottom = 300 \<rparr>) 5 True freshContext =
     freshContext\<lparr> flushChecks := 1 \<rparr>"
proof -
  note t = clear_rect_selection [of _ refEnv 5 _ freshContext]
  have 1: "clear refEnv None 5 False freshContext =
     freshContext\<lparr> fDrawTarget := Some 0, lastDrawTarget := Some 0, issuedTargets := 1,
        submitted := [AddBatch 0 (GrClearBatch (SkIRect_MakeWH 100 100) 5)], flushChecks := 1 \<rparr>"
    using t [of None False] by (simp add: geom_defs target_defs ref_defs)
  have 2: "clear refEnv (Some \<lparr> iLeft = -5, iTop = 0, iRight = 100, iBottom = 120 \<rparr>) 5 False freshContext =
     freshContext\<lparr> fDrawTarget := Some 0, lastDrawTarget := Some 0, issuedTargets := 1,
        submitted := [AddBatch 0 (GrClearBatch (SkIRect_MakeWH 100 100) 5)], flushChecks := 1 \<rparr>"
    using t [of "Some \<lparr> iLeft = -5, iTop = 0, iRight = 100, iBottom = 120 \<rparr>" False]
    by (simp add: geom_defs target_defs ref_defs)
  have 3: "clear refEnv (Some \<lparr> iLeft = 10, iTop = 10, iRight = 150, iBottom = 50 \<rparr>) 5 True freshContext =
     freshContext\<lparr> fDrawTarget := Some 0, lastDrawTarget := Some 0, issuedTargets := 1,
        submitted := [AddBatch 0 (GrClearBatch \<lparr> iLeft = 10, iTop = 10, iRight = 100, iBottom = 50 \<rparr> 5)],
        flushChecks := 1 \<rparr>"
    using t [of "Some \<lparr> iLeft = 10, iTop = 10, iRight = 150, iBottom = 50 \<rparr>" True]
    by (simp add: geom_defs target_defs ref_defs)
  have 4: "clear refEnv (Some \<lparr> iLeft = 200, iTop = 200, iRight = 300, iBottom = 300 \<rparr>) 5 True freshContext =
     freshContext\<lparr> flushChecks := 1 \<rparr>"
    using t [of "Some \<lparr> iLeft = 200, iTop = 200, iRight = 300, iBottom = 300 \<rparr>" True]
    by (simp add: geom_defs target_defs ref_defs)
  from 1 2 3 4 show ?thesis by simp
qed

subsection \<open>Backends that must draw instead of clearing\<close>

lemma drawRect_src_fill:
  assumes "useDrawInsteadOfClear (caps env)" and "\<not> wasAbandoned s"
    and "crop_filled_rect env GrNoClip SkMatrix_I R None = Some (cr, x)"
  shows "\<exists>h pb b. submitted (drawRect env GrNoClip (srcPaint color) SkMatrix_I R None s) =
           submitted s @ [DrawBatch h pb GrNoClip b] \<and> pbPaint pb = srcPaint color \<and>
           (b = NonAAFillRectBatch color SkMatrix_I cr None None \<or>
            b = InstancedRectBatch cr SkMatrix_I color False)"
proof -
  obtain h0 s1 where g: "getDrawTarget s = (h0, s1)" by (cases "getDrawTarget s")
  have s1: "submitted s1 = submitted s"
    using getDrawTarget_keeps(1) [of s] g by simp
  have paint: "getColor (srcPaint color) = color" "isAntiAlias (srcPaint color) = False"
    by (simp_all add: srcPaint_def GrPaint_default_def)
  show ?thesis
  proof (cases "case instancedRendering env of None \<Rightarrow> None
                | Some ir \<Rightarrow> recordRect ir cr SkMatrix_I (getColor (srcPaint color))
                                (isAntiAlias (srcPaint color))")
    case None
    obtain h where h: "submitted (onTarget (\<lambda>h. DrawBatch h
        (GrPipelineBuilder_make (srcPaint color) False) GrNoClip
        (NonAAFillRectBatch color SkMatrix_I cr None None)) s1) =
        submitted s1 @ [DrawBatch h (GrPipelineBuilder_make (srcPaint color) False) GrNoClip
        (NonAAFillRectBatch color SkMatrix_I cr None None)]"
      using onTarget_submitted by blast
    have "submitted (drawRect env GrNoClip (srcPaint color) SkMatrix_I R None s) =
        submitted s @ [DrawBatch h (GrPipelineBuilder_make (srcPaint color) False) GrNoClip
        (NonAAFillRectBatch color SkMatrix_I cr None None)]"
      using assms None g h s1 paint
      by (subst drawRect.simps)
         (simp add: GrStyle_SimpleFill_def drawFilledRect_def should_apply_coverage_aa_def
            drawNonAAFilledRect_def mustUseHWAA_def setUserStencilIf_def)
    then show ?thesis by (auto simp: GrPipelineBuilder_make_def)
  next
    case (Some hw)
    obtain h where h: "submitted (onTarget (\<lambda>h. DrawBatch h
        (GrPipelineBuilder_make (srcPaint color) hw) GrNoClip
        (InstancedRectBatch cr SkMatrix_I color False)) s1) =
        submitted s1 @ [DrawBatch h (GrPipelineBuilder_make (srcPaint color) hw) GrNoClip
        (InstancedRectBatch cr SkMatrix_I color False)]"
      using onTarget_submitted by blast
    have "submitted (drawRect env GrNoClip (srcPaint color) SkMatrix_I R None s) =
        submitted s @ [DrawBatch h (GrPipelineBuilder_make (srcPaint color) hw) GrNoClip
        (InstancedRectBatch cr SkMatrix_I color False)]"
      using assms Some g h s1 paint
      by (subst drawRect.simps)
         (simp add: GrStyle_SimpleFill_def drawFilledRect_def setUserStencilIf_def)
    then show ?thesis by (auto simp: GrPipelineBuilder_make_def)
  qed
qed

text \<open>Claim C6, as the code has it: on a backend whose must-draw-instead-of-clear flag is set,
  a \<open>clear\<close> on a live context that ends up with the rect \<open>r\<close>, when the filled-rect path does
  not crop \<open>r\<close> away, submits a filled rect with the replace (src) blend through \<open>drawBatch\<close>
  and no clear batch. The target's contents are discarded first only when \<open>r\<close> is the
  whole-target rect; a clear of part of the target discards nothing. So the call submits exactly
  one batch, preceded by a discard exactly in the whole-target case.\<close>

theorem clear_on_draw_instead_backend:
  fixes env :: Env and rect color canIgnoreRect s r cr x
  defines "rtRect \<equiv> SkIRect_MakeWH (rtWidth (fRenderTarget env)) (rtHeight (fRenderTarget env))"
  defines "whole \<equiv> (rect = None \<or> (\<exists>given. rect = Some given \<and>
             ((canIgnoreRect \<and> fullClearIsFree (caps env)) \<or> SkIRect_contains given rtRect)))"
  assumes "useDrawInsteadOfClear (caps env)" and "\<not> wasAbandoned s"
    and "crop_filled_rect env GrNoClip SkMatrix_I (SkRect_Make r) None = Some (cr, x)"
  shows "(whole \<and> r = rtRect \<longrightarrow>
           (\<exists>h h' pb b. submitted (clear env rect color canIgnoreRect s) =
                submitted s @ [Discard h, DrawBatch h' pb GrNoClip b] \<and>
              pbPaint pb = srcPaint color \<and>
              (b = NonAAFillRectBatch color SkMatrix_I cr None None \<or>
               b = InstancedRectBatch cr SkMatrix_I color False))) \<and>
         (\<forall>given. \<not> whole \<and> rect = Some given \<and> SkIRect_intersect given rtRect = Some r \<longrightarrow>
           (\<exists>h pb b. submitted (clear env rect color canIgnoreRect s) =
                submitted s @ [DrawBatch h pb GrNoClip b] \<and>
              pbPaint pb = srcPaint color \<and>
              (b = NonAAFillRectBatch color SkMatrix_I cr None None \<or>
               b = InstancedRectBatch cr SkMatrix_I color False)))"
proof (intro conjI impI allI)
  assume a: "whole \<and> r = rtRect"
  have c: "clear env rect color canIgnoreRect s =
      acf_exit (drawRect env GrNoClip (srcPaint color) SkMatrix_I (SkRect_Make r) None (discard s))"
    using a assms(3,4) unfolding whole_def rtRect_def
    by (auto simp add: clear.simps srcPaint_def split: option.splits)
  obtain h where h: "submitted (discard s) = submitted s @ [Discard h]"
    using discard_submitted [OF assms(4)] by blast
  have live: "\<not> wasAbandoned (discard s)" using assms(4) by simp
  from drawRect_src_fill [OF assms(3) live assms(5), of color] c h
  show "\<exists>h h' pb b. submitted (clear env rect color canIgnoreRect s) =
                submitted s @ [Discard h, DrawBatch h' pb GrNoClip b] \<and>
              pbPaint pb = srcPaint color \<and>
              (b = NonAAFillRectBatch color SkMatrix_I cr None None \<or>
               b = InstancedRectBatch cr SkMatrix_I color False)"
    by auto
next
  fix given
  assume a: "\<not> whole \<and> rect = Some given \<and> SkIRect_intersect given rtRect = Some r"
  have c: "clear env rect color canIgnoreRect s =
      acf_exit (drawRect env GrNoClip (srcPaint color) SkMatrix_I (SkRect_Make r) None s)"
    using a assms(3,4) unfolding whole_def rtRect_def
    by (auto simp add: clear.simps srcPaint_def split: option.splits)
  from drawRect_src_fill [OF assms(3,4,5), of color] c
  show "\<exists>h pb b. submitted (clear env rect color canIgnoreRect s) =
                submitted s @ [DrawBatch h pb GrNoClip b] \<and>
              pbPaint pb = srcPaint color \<and>
              (b = NonAAFillRectBatch color SkMatrix_I cr None None \<or>
               b = InstancedRectBatch cr SkMatrix_I color False)"
    by auto
qed

text \<open>Claim C6 as stated fails twice: a clear of part of the target draws the rect without
  discarding the target's contents, and a clear whose rect misses the target submits no batch at
  all.\<close>

theorem clear_on_draw_instead_counterexample:
  "submitted (clear drawInsteadEnv (Some \<lparr> iLeft = 10, iTop = 10, iRight = 50, iBottom = 50 \<rparr>)
      5 False freshContext) =
     [DrawBatch 0 (GrPipelineBuilder_make (srcPaint 5) False) GrNoClip
        (NonAAFillRectBatch 5 SkMatrix_I (SkRect_MakeLTRB 10 10 50 50) None None)] \<and>
   submitted (clear drawInsteadEnv (Some \<lparr> iLeft = 200, iTop = 200, iRight = 300, iBottom = 300 \<rparr>)
      5 False freshContext) = []"
  by (simp add: drawRect.simps clear.simps geom_defs target_defs ref_defs draw_defs)

theorem clear_on_draw_instead_backend_witness:
  "(\<exists>h h' pb b. submitted (clear drawInsteadEnv None 5 True freshContext) =
        submitted freshContext @ [Discard h, DrawBatch h' pb GrNoClip b] \<and>
        pbPaint pb = srcPaint 5 \<and>
        (b = NonAAFillRectBatch 5 SkMatrix_I (SkRect_MakeLTRB 0 0 100 100) None None \<or>
         b = InstancedRectBatch (SkRect_MakeLTRB 0 0 100 100) SkMatrix_I 5 False)) \<and>
   (\<exists>h pb b. submitted (clear drawInsteadEnv
        (Some \<lparr> iLeft = 10, iTop = 10, iRight = 150, iBottom = 50 \<rparr>) 5 True freshContext) =
        submitted freshContext @ [DrawBatch h pb GrNoClip b] \<and>
        pbPaint pb = srcPaint 5 \<and>
        (b = NonAAFillRectBatch 5 SkMatrix_I (SkRect_MakeLTRB 10 10 100 50) None None \<or>
         b = InstancedRectBatch (SkRect_MakeLTRB 10 10 100 50) SkMatrix_I 5 False))"
proof -
  have flag: "useDrawInsteadOfClear (caps drawInsteadEnv)" by (simp add: ref_defs)
  have live: "\<not> wasAbandoned freshContext" by (simp add: freshContext_def GrDrawContext_new_def)
  have rt: "SkIRect_MakeWH (rtWidth (fRenderTarget drawInsteadEnv))
              (rtHeight (fRenderTarget drawInsteadEnv)) = SkIRect_MakeWH 100 100"
    and free: "\<not> fullClearIsFree (caps drawInsteadEnv)"
    by (simp_all add: drawInsteadEnv_def refEnv_def)
  have c1: "crop_filled_rect drawInsteadEnv GrNoClip SkMatrix_I
       (SkRect_Make (SkIRect_MakeWH 100 100)) None = Some (SkRect_MakeLTRB 0 0 100 100, None)"
    by (simp add: crop_filled_rect_def geom_defs ref_defs)
  have c2: "crop_filled_rect drawInsteadEnv GrNoClip SkMatrix_I
       (SkRect_Make \<lparr> iLeft = 10, iTop = 10, iRight = 100, iBottom = 50 \<rparr>) None =
       Some (SkRect_MakeLTRB 10 10 100 50, None)"
    by (simp add: crop_filled_rect_def geom_defs ref_defs)
  have i2: "SkIRect_intersect \<lparr> iLeft = 10, iTop = 10, iRight = 150, iBottom = 50 \<rparr>
              (SkIRect_MakeWH 100 100) = Some \<lparr> iLeft = 10, iTop = 10, iRight = 100, iBottom = 50 \<rparr>"
    and n2: "\<not> SkIRect_contains \<lparr> iLeft = 10, iTop = 10, iRight = 150, iBottom = 50 \<rparr>
              (SkIRect_MakeWH 100 100)"
    by (simp_all add: SkIRect_intersect_def SkIRect_contains_def SkIRect_isEmpty_def SkIRect_MakeWH_def)
  have A: "\<exists>h h' pb b. submitted (clear drawInsteadEnv None 5 True freshContext) =
        submitted freshContext @ [Discard h, DrawBatch h' pb GrNoClip b] \<and>
        pbPaint pb = srcPaint 5 \<and>
        (b = NonAAFillRectBatch 5 SkMatrix_I (SkRect_MakeLTRB 0 0 100 100) None None \<or>
         b = InstancedRectBatch (SkRect_MakeLTRB 0 0 100 100) SkMatrix_I 5 False)"
    using clear_on_draw_instead_backend [OF flag live c1, of None True 5, THEN conjunct1]
    by (simp add: rt)
  have B: "\<exists>h pb b. submitted (clear drawInsteadEnv
        (Some \<lparr> iLeft = 10, iTop = 10, iRight = 150, iBottom = 50 \<rparr>) 5 True freshContext) =
        submitted freshContext @ [DrawBatch h pb GrNoClip b] \<and>
        pbPaint pb = srcPaint 5 \<and>
        (b = NonAAFillRectBatch 5 SkMatrix_I (SkRect_MakeLTRB 10 10 100 50) None None \<or>
         b = InstancedRectBatch (SkRect_MakeLTRB 10 10 100 50) SkMatrix_I 5 False)"
    using clear_on_draw_instead_backend [OF flag live c2,
            of "Some \<lparr> iLeft = 10, iTop = 10, iRight = 150, iBottom = 50 \<rparr>" True 5, THEN conjunct2]
    by (simp add: rt free i2 n2)
  from A B show ?thesis by blast
qed

section \<open>The filled-rect fast path\<close>

text \<open>Claim C7. \<open>GrRectBatchFactory::CreateAAFill\<close> is not among the sources; \<open>drawFilledRect\<close>
  tests its result for null. The claim is about a factory that makes the antialiased-fill batch
  it is asked for, which is the hypothesis. Then \<open>drawFilledRect\<close> returns false exactly when
  the crop keeps the draw, the instanced renderer (if any) records nothing, coverage
  antialiasing applies and the view matrix does not preserve right angles. In every other case
  (the crop skips the draw, the instanced renderer accepts, the antialiased fill batch is
  emitted, or the non-antialiased fill is emitted) it returns true.\<close>

theorem drawFilledRect_returns_false:
  assumes "\<forall>color m r d. CreateAAFill env color m r d \<noteq> None"
  shows "fst (drawFilledRect env clip paint viewMatrix rect ss s) = False \<longleftrightarrow>
     (\<exists>cr x. crop_filled_rect env clip viewMatrix rect None = Some (cr, x) \<and>
        (case instancedRendering env of
           None \<Rightarrow> True
         | Some ir \<Rightarrow> recordRect ir cr viewMatrix (getColor paint) (isAntiAlias paint) = None) \<and>
        fst (should_apply_coverage_aa paint (fRenderTarget env)) \<and>
        \<not> preservesRightAngles (matrixOps env) viewMatrix)"
  using assms
  by (auto simp add: drawFilledRect_def Let_def CreateAAFill_def view_matrix_ok_for_aa_fill_rect_def
        split: option.splits prod.splits if_splits)

text \<open>The theorem in the reference configuration, whose factory makes every batch: an
  antialiased fill under a skew returns false, an antialiased fill under a rotation returns
  true, and a fill without antialiasing under the skew returns true.\<close>

theorem drawFilledRect_returns_false_witness:
  "fst (drawFilledRect refEnv GrNoClip ((srcPaint 5)\<lparr> isAntiAlias := True \<rparr>) skewMatrix
          (SkRect_MakeLTRB 10 10 50 50) None freshContext) = False \<and>
   fst (drawFilledRect refEnv GrNoClip ((srcPaint 5)\<lparr> isAntiAlias := True \<rparr>) rot45
          (SkRect_MakeLTRB 10 10 50 50) None freshContext) = True \<and>
   fst (drawFilledRect refEnv GrNoClip (srcPaint 5) skewMatrix
          (SkRect_MakeLTRB 10 10 50 50) None freshContext) = True"
proof -
  have fac: "\<forall>color m r d. CreateAAFill refEnv color m r d \<noteq> None"
    by (simp add: CreateAAFill_def refEnv_def refFactories_def)
  note t = drawFilledRect_returns_false [OF fac, of GrNoClip _ _ "SkRect_MakeLTRB 10 10 50 50" None
             freshContext]
  have 1: "fst (drawFilledRect refEnv GrNoClip ((srcPaint 5)\<lparr> isAntiAlias := True \<rparr>) skewMatrix
          (SkRect_MakeLTRB 10 10 50 50) None freshContext) = False"
    using t [of "(srcPaint 5)\<lparr> isAntiAlias := True \<rparr>" skewMatrix]
    by (simp add: crop_filled_rect_def should_apply_coverage_aa_def geom_defs ref_defs)
  have 2: "fst (drawFilledRect refEnv GrNoClip ((srcPaint 5)\<lparr> isAntiAlias := True \<rparr>) rot45
          (SkRect_MakeLTRB 10 10 50 50) None freshContext) = True"
    using t [of "(srcPaint 5)\<lparr> isAntiAlias := True \<rparr>" rot45]
    by (simp add: crop_filled_rect_def should_apply_coverage_aa_def geom_defs ref_defs)
  have 3: "fst (drawFilledRect refEnv GrNoClip (srcPaint 5) skewMatrix
          (SkRect_MakeLTRB 10 10 50 50) None freshContext) = True"
    using t [of "srcPaint 5" skewMatrix]
    by (simp add: crop_filled_rect_def should_apply_coverage_aa_def geom_defs ref_defs)
  from 1 2 3 show ?thesis by simp
qed


section \<open>Abandoned contexts\<close>

lemma drawAndStencilRect_abandoned:
  "wasAbandoned s \<Longrightarrow> drawAndStencilRect env clip ss op ic doAA m rect s = (False, s)"
  by (subst drawAndStencilRect.simps) simp

lemma drawAndStencilPath_abandoned:
  "wasAbandoned s \<Longrightarrow> drawAndStencilPath env clip ss op ic doAA m path s = (False, s)"
  by (subst drawAndStencilPath.simps) simp

text \<open>On an abandoned context every operation but \<open>stencilPath\<close> (and the private
  \<open>getDrawTarget\<close>) returns at once and leaves the state as it was.\<close>

lemma guarded_entry_points:
  assumes "wasAbandoned s"
  shows "call \<noteq> GetDrawTargetCall \<Longrightarrow> (\<forall>clip ss hw m path. call \<noteq> StencilPathCall clip ss hw m path) \<Longrightarrow>
         perform env call s = s"
  using assms
  by (cases "(env, call, s)" rule: perform.cases)
     (simp_all add: drawRect_abandoned clear_abandoned drawAndStencilRect_abandoned
        drawAndStencilPath_abandoned copySurface_def drawText_def drawPosText_def drawTextBlob_def
        discard_def drawPaint_def clearStencilClip_def stencilRect_def fillRectToRect_def
        fillRectWithLocalMatrix_def drawVertices_def drawAtlas_def drawRRect_def drawDRRect_def
        drawOval_def drawImageNine_def drawPath_def internalDrawPath_def drawBatch_def)

text \<open>Claim C8 says that every entry point returns at once on an abandoned context, submitting
  nothing and changing no state. \<open>GrDrawContextPriv::stencilPath\<close> does not: it has no
  \<open>RETURN_IF_ABANDONED_PRIV\<close>, so on an abandoned context it still asks the manager for a draw
  target and hands it the stencil operation.\<close>

theorem stencilPath_on_abandoned_context:
  "wasAbandoned abandonedContext \<and>
   stencilPath GrNoClip 1 False SkMatrix_I 7 abandonedContext =
     abandonedContext\<lparr> fDrawTarget := Some 0, lastDrawTarget := Some 0, issuedTargets := 1,
        submitted := [StencilPath 0 GrNoClip 1 False SkMatrix_I 7] \<rparr>"
  by (simp add: stencilPath_def target_defs ref_defs)

section \<open>General path drawing: the three tiers\<close>

text \<open>Claim C2, as the code has it. On a live context and for a shape that is not empty,
  \<open>internalDrawPath\<close> asks the renderer chain
  first for the unmodified shape with software disallowed;
  if no renderer accepts and the style carries a path effect, for the shape with only the path
  effect applied, software still disallowed, unless that shape is empty, in which case the draw
  is dropped;
  if still no renderer accepts, for the shape with the style fully applied (when the style
  still applies; scaled by the matrix's scale factor) with software allowed, unless that shape is
  empty, in which case the draw is dropped.
  The first renderer found draws the shape it accepted; if none is found the state is unchanged.
  \<open>query\<close> is one question to the chain, \<open>draws\<close> the effect of the chosen renderer.\<close>

theorem internalDrawPath_three_tiers:
  fixes env :: Env and clip paint viewMatrix path style s
  defines "aa \<equiv> fst (should_apply_coverage_aa paint (fRenderTarget env))"
  defines "query \<equiv> \<lambda>sh allowSW. getPathRenderer env
     \<lparr> cdViewMatrix = viewMatrix, cdShape = sh, cdAntiAlias = aa, cdHasUserStencilSettings = False,
       cdIsStencilBufferMSAA = isStencilBufferMultisampled (fRenderTarget env) \<rparr> allowSW
     (if aa then kColorAntiAlias_DrawType else kColor_DrawType)"
  defines "draws \<equiv> \<lambda>renderer sh. emit (PathRendererDraw renderer
     \<lparr> dpPaint = paint, dpUserStencilSettings = None, dpClip = clip, dpViewMatrix = viewMatrix,
       dpShape = sh, dpAntiAlias = aa \<rparr>) s"
  defines "scale \<equiv> MatrixToScaleFactor (matrixOps env) viewMatrix"
  defines "shape0 \<equiv> GrShape_make path style"
  defines "shape1 \<equiv> applyStyle (pathOps env) (GrShape_make path style) kPathEffectOnly scale"
  defines "lastTier \<equiv> \<lambda>sh.
     (if applies (shapeStyle sh)
      then (if shapeIsEmpty (pathOps env) (applyStyle (pathOps env) sh kPathEffectAndStrokeRec scale)
            then s
            else (case query (applyStyle (pathOps env) sh kPathEffectAndStrokeRec scale) True of
                    None \<Rightarrow> s
                  | Some renderer \<Rightarrow>
                      draws renderer (applyStyle (pathOps env) sh kPathEffectAndStrokeRec scale)))
      else (case query sh True of None \<Rightarrow> s | Some renderer \<Rightarrow> draws renderer sh))"
  assumes "\<not> wasAbandoned s" and "\<not> shapeIsEmpty (pathOps env) shape0"
  shows "internalDrawPath env clip paint viewMatrix path style s =
     (case query shape0 False of
        Some renderer \<Rightarrow> draws renderer shape0
      | None \<Rightarrow>
          if pathEffect style \<noteq> None
          then (if shapeIsEmpty (pathOps env) shape1 then s
                else (case query shape1 False of
                        Some renderer \<Rightarrow> draws renderer shape1
                      | None \<Rightarrow> lastTier shape1))
          else lastTier shape0)"
proof -
  have unfold: "internalDrawPath env clip paint viewMatrix path style s =
     (case (if query shape0 False = None \<and> pathEffect style \<noteq> None
            then (if shapeIsEmpty (pathOps env) shape1 then None
                  else Some (shape1, query shape1 False))
            else Some (shape0, query shape0 False)) of
        None \<Rightarrow> s
      | Some (shape2, pr2) \<Rightarrow>
          (case (if pr2 = None
                 then (if applies (shapeStyle shape2)
                       then (if shapeIsEmpty (pathOps env)
                                  (applyStyle (pathOps env) shape2 kPathEffectAndStrokeRec scale)
                             then None
                             else Some (applyStyle (pathOps env) shape2 kPathEffectAndStrokeRec scale,
                                    query (applyStyle (pathOps env) shape2
                                             kPathEffectAndStrokeRec scale) True))
                       else Some (shape2, query shape2 True))
                 else Some (shape2, pr2)) of
             None \<Rightarrow> s
           | Some (shape4, pr4) \<Rightarrow>
               (case pr4 of None \<Rightarrow> s | Some renderer \<Rightarrow> draws renderer shape4)))"
    using assms(8,9)
    unfolding aa_def query_def draws_def scale_def shape0_def shape1_def internalDrawPath_def
      Let_def GrShape_make_def
    by (simp split del: if_split cong: if_cong)
  show ?thesis
  proof (cases "query shape0 False")
    case (Some r)
    then show ?thesis unfolding unfold by simp
  next
    case None
    note q0 = None
    show ?thesis
    proof (cases "pathEffect style = None")
      case True
      then show ?thesis unfolding unfold lastTier_def using q0
        by (cases "applies (shapeStyle shape0)") (simp_all split: option.splits)
    next
      case False
      note pe = False
      show ?thesis
      proof (cases "shapeIsEmpty (pathOps env) shape1")
        case True
        then show ?thesis unfolding unfold using q0 pe by simp
      next
        case False
        note ne1 = False
        show ?thesis
        proof (cases "query shape1 False")
          case (Some r)
          then show ?thesis unfolding unfold using q0 pe ne1 by simp
        next
          case None
          then show ?thesis unfolding unfold lastTier_def using q0 pe ne1
            by (cases "applies (shapeStyle shape1)") (simp_all split: option.splits)
        qed
      qed
    qed
  qed
qed

text \<open>Claim C2 as stated fails where a style application leaves an empty shape: the first
  query finds no renderer, the style carries a path effect, the chain would accept the shape with
  the path effect applied (and the fully styled one with software allowed), yet nothing is drawn,
  because the source returns as soon as the path effect has produced an empty shape.\<close>

theorem internalDrawPath_counterexample:
  "SkPath_isEmpty somePath = False \<and>
   pathEffect effectFill \<noteq> None \<and>
   getPathRenderer dashEnv
     \<lparr> cdViewMatrix = SkMatrix_I, cdShape = GrShape_make somePath effectFill, cdAntiAlias = False,
       cdHasUserStencilSettings = False, cdIsStencilBufferMSAA = False \<rparr> False kColor_DrawType = None \<and>
   getPathRenderer dashEnv
     \<lparr> cdViewMatrix = SkMatrix_I,
       cdShape = applyStyle (pathOps dashEnv) (GrShape_make somePath effectFill) kPathEffectOnly 1,
       cdAntiAlias = False, cdHasUserStencilSettings = False, cdIsStencilBufferMSAA = False \<rparr>
     False kColor_DrawType = Some 1 \<and>
   getPathRenderer dashEnv
     \<lparr> cdViewMatrix = SkMatrix_I,
       cdShape = applyStyle (pathOps dashEnv) (GrShape_make somePath effectFill)
                   kPathEffectAndStrokeRec 1,
       cdAntiAlias = False, cdHasUserStencilSettings = False, cdIsStencilBufferMSAA = False \<rparr>
     True kColor_DrawType = Some 1 \<and>
   internalDrawPath dashEnv GrNoClip (srcPaint 5) SkMatrix_I somePath effectFill freshContext =
     freshContext"
  by (simp add: geom_defs target_defs ref_defs draw_defs)

theorem internalDrawPath_three_tiers_witness:
  "internalDrawPath refEnv GrNoClip (srcPaint 5) SkMatrix_I somePath GrStyle_SimpleFill freshContext =
     freshContext\<lparr> submitted := [PathRendererDraw 1
        \<lparr> dpPaint = srcPaint 5, dpUserStencilSettings = None, dpClip = GrNoClip,
          dpViewMatrix = SkMatrix_I, dpShape = GrShape_make somePath GrStyle_SimpleFill,
          dpAntiAlias = False \<rparr>] \<rparr> \<and>
   internalDrawPath refEnv GrNoClip (srcPaint 5) SkMatrix_I somePath effectFill freshContext =
     freshContext\<lparr> submitted := [PathRendererDraw 1
        \<lparr> dpPaint = srcPaint 5, dpUserStencilSettings = None, dpClip = GrNoClip,
          dpViewMatrix = SkMatrix_I, dpShape = GrShape_make somePath GrStyle_SimpleFill,
          dpAntiAlias = False \<rparr>] \<rparr> \<and>
   internalDrawPath refEnv GrNoClip (srcPaint 5) SkMatrix_I somePath (strokeStyle kMiter_Join 4)
       freshContext =
     freshContext\<lparr> submitted := [PathRendererDraw 1
        \<lparr> dpPaint = srcPaint 5, dpUserStencilSettings = None, dpClip = GrNoClip,
          dpViewMatrix = SkMatrix_I, dpShape = GrShape_make somePath GrStyle_SimpleFill,
          dpAntiAlias = False \<rparr>] \<rparr> \<and>
   internalDrawPath noRendererEnv GrNoClip (srcPaint 5) SkMatrix_I somePath
       (strokeStyle kMiter_Join 4) freshContext = freshContext"
proof -
  have live: "\<not> wasAbandoned freshContext" by (simp add: freshContext_def GrDrawContext_new_def)
  have ne: "\<not> shapeIsEmpty (pathOps refEnv) (GrShape_make somePath st)"
    and ne': "\<not> shapeIsEmpty (pathOps noRendererEnv) (GrShape_make somePath st)" for st
    by (simp_all add: ref_defs GrShape_make_def SkPath_isEmpty_def)
  note t = internalDrawPath_three_tiers [OF live ne, of GrNoClip "srcPaint 5" SkMatrix_I]
  note t' = internalDrawPath_three_tiers [OF live ne', of GrNoClip "srcPaint 5" SkMatrix_I]
  have 1: "internalDrawPath refEnv GrNoClip (srcPaint 5) SkMatrix_I somePath GrStyle_SimpleFill freshContext =
     freshContext\<lparr> submitted := [PathRendererDraw 1
        \<lparr> dpPaint = srcPaint 5, dpUserStencilSettings = None, dpClip = GrNoClip,
          dpViewMatrix = SkMatrix_I, dpShape = GrShape_make somePath GrStyle_SimpleFill,
          dpAntiAlias = False \<rparr>] \<rparr>"
    using t [of GrStyle_SimpleFill]
    by (simp add: should_apply_coverage_aa_def emit_def ref_defs isSimpleFill_def isFillStyle_def
          GrStyle_SimpleFill_def GrShape_make_def applies_def)
  have 2: "internalDrawPath refEnv GrNoClip (srcPaint 5) SkMatrix_I somePath effectFill freshContext =
     freshContext\<lparr> submitted := [PathRendererDraw 1
        \<lparr> dpPaint = srcPaint 5, dpUserStencilSettings = None, dpClip = GrNoClip,
          dpViewMatrix = SkMatrix_I, dpShape = GrShape_make somePath GrStyle_SimpleFill,
          dpAntiAlias = False \<rparr>] \<rparr>"
    using t [of effectFill]
    by (simp add: should_apply_coverage_aa_def emit_def ref_defs isSimpleFill_def isFillStyle_def
          GrStyle_SimpleFill_def GrShape_make_def applies_def SkPath_isEmpty_def)
  have 3: "internalDrawPath refEnv GrNoClip (srcPaint 5) SkMatrix_I somePath (strokeStyle kMiter_Join 4)
       freshContext =
     freshContext\<lparr> submitted := [PathRendererDraw 1
        \<lparr> dpPaint = srcPaint 5, dpUserStencilSettings = None, dpClip = GrNoClip,
          dpViewMatrix = SkMatrix_I, dpShape = GrShape_make somePath GrStyle_SimpleFill,
          dpAntiAlias = False \<rparr>] \<rparr>"
    using t [of "strokeStyle kMiter_Join 4"]
    by (simp add: should_apply_coverage_aa_def emit_def ref_defs isSimpleFill_def isFillStyle_def
          GrStyle_SimpleFill_def GrShape_make_def applies_def SkPath_isEmpty_def)
  have 4: "internalDrawPath noRendererEnv GrNoClip (srcPaint 5) SkMatrix_I somePath
       (strokeStyle kMiter_Join 4) freshContext = freshContext"
    using t' [of "strokeStyle kMiter_Join 4"]
    by (simp add: should_apply_coverage_aa_def emit_def ref_defs isSimpleFill_def isFillStyle_def
          GrStyle_SimpleFill_def GrShape_make_def applies_def SkPath_isEmpty_def)
  from 1 2 3 4 show ?thesis by simp
qed

section \<open>Nested rects\<close>

lemmas path_defs = drawPath_def fills_as_nested_rects_def asScalars_def
  SkScalarNearlyEqual_def SK_ScalarNearlyZero_def CreateAAFillNestedRects_def CreateOvalBatch_def
  isInverseFillType_def drawPaint_def Let_def

lemmas float_defs = SkScalar_sub_def SkScalar_round_def float_exponent_def pow2_def
  round_half_even_def exponent_up.simps exponent_down.simps

text \<open>Rounding at a few values: a float is kept, \<open>1/10\<close> goes to the nearest float, a tie
  goes to the even significand (upwards and downwards), \<open>2^-30 - 1\<close> goes to \<open>-1\<close>, and half
  the smallest subnormal goes to zero.\<close>

lemma SkScalar_round_examples:
  "SkScalar_round 3 = 3"
  "SkScalar_round (1 / 10) = 13421773 / 134217728"
  "SkScalar_round 16777217 = 16777216"
  "SkScalar_round 16777219 = 16777220"
  "SkScalar_round (1 / 2 ^ 30 - 1) = - 1"
  "SkScalar_round (1 / 2 ^ 150) = 0"
  "SkScalar_round (3 / 2 ^ 150) = 1 / 2 ^ 148"
  by (simp_all add: float_defs)

lemma margin_loop_unrolled:
  "margin_loop [o0, o1, o2, o3] [i0, i1, i2, i3] margin (Suc 0) allEq allGoE1 =
     (allEq \<and> SkScalarNearlyEqual margin \<bar>SkScalar_sub o1 i1\<bar> \<and>
        SkScalarNearlyEqual margin \<bar>SkScalar_sub o2 i2\<bar> \<and>
        SkScalarNearlyEqual margin \<bar>SkScalar_sub o3 i3\<bar>,
      allGoE1 \<and> 1 \<le> \<bar>SkScalar_sub o1 i1\<bar> \<and> 1 \<le> \<bar>SkScalar_sub o2 i2\<bar> \<and>
        1 \<le> \<bar>SkScalar_sub o3 i3\<bar>)"
proof -
  have 4: "margin_loop [o0, o1, o2, o3] [i0, i1, i2, i3] margin (Suc (Suc (Suc (Suc 0)))) a b = (a, b)"
    for a b
    by (subst margin_loop.simps) simp
  have 3: "margin_loop [o0, o1, o2, o3] [i0, i1, i2, i3] margin (Suc (Suc (Suc 0))) a b =
      (a \<and> SkScalarNearlyEqual margin \<bar>SkScalar_sub o3 i3\<bar>, b \<and> 1 \<le> \<bar>SkScalar_sub o3 i3\<bar>)"
    for a b
    by (subst margin_loop.simps) (auto simp add: 4 Let_def)
  have 2: "margin_loop [o0, o1, o2, o3] [i0, i1, i2, i3] margin (Suc (Suc 0)) a b =
      (a \<and> SkScalarNearlyEqual margin \<bar>SkScalar_sub o2 i2\<bar> \<and>
         SkScalarNearlyEqual margin \<bar>SkScalar_sub o3 i3\<bar>,
       b \<and> 1 \<le> \<bar>SkScalar_sub o2 i2\<bar> \<and> 1 \<le> \<bar>SkScalar_sub o3 i3\<bar>)" for a b
    by (subst margin_loop.simps) (auto simp add: 3 Let_def)
  show ?thesis
    by (subst margin_loop.simps) (auto simp add: 2 Let_def)
qed

lemma fills_as_nested_rects_eq:
  assumes "isNestedFillRects (pathOps env) path = Some ((outer, inner), (d0, d1))"
  shows "fills_as_nested_rects env viewMatrix path =
     (if isInverseFillType path \<or> \<not> rectStaysRect (matrixOps env) viewMatrix \<or>
         (getFillType path = kWinding_FillType \<and> d0 = d1)
      then None
      else if (SkScalarNearlyEqual (abs (SkScalar_sub (fLeft outer) (fLeft inner)))
                 (abs (SkScalar_sub (fTop outer) (fTop inner))) \<and>
               SkScalarNearlyEqual (abs (SkScalar_sub (fLeft outer) (fLeft inner)))
                 (abs (SkScalar_sub (fRight outer) (fRight inner))) \<and>
               SkScalarNearlyEqual (abs (SkScalar_sub (fLeft outer) (fLeft inner)))
                 (abs (SkScalar_sub (fBottom outer) (fBottom inner)))) \<or>
              (1 \<le> abs (SkScalar_sub (fLeft outer) (fLeft inner)) \<and>
               1 \<le> abs (SkScalar_sub (fTop outer) (fTop inner)) \<and>
               1 \<le> abs (SkScalar_sub (fRight outer) (fRight inner)) \<and>
               1 \<le> abs (SkScalar_sub (fBottom outer) (fBottom inner)))
      then Some (outer, inner) else None)"
  using assms
  by (simp add: fills_as_nested_rects_def asScalars_def margin_loop_unrolled Let_def)

lemma renderer_tail:
  "(case X of
      None \<Rightarrow> s
    | Some (shape2, pr2) \<Rightarrow>
        (case Y shape2 pr2 of
           None \<Rightarrow> s
         | Some (shape4, pr4) \<Rightarrow>
             (case pr4 of None \<Rightarrow> s | Some renderer \<Rightarrow> emit (PathRendererDraw renderer (A shape4)) s))) = s \<or>
   (\<exists>r a. (case X of
      None \<Rightarrow> s
    | Some (shape2, pr2) \<Rightarrow>
        (case Y shape2 pr2 of
           None \<Rightarrow> s
         | Some (shape4, pr4) \<Rightarrow>
             (case pr4 of None \<Rightarrow> s | Some renderer \<Rightarrow> emit (PathRendererDraw renderer (A shape4)) s))) =
      emit (PathRendererDraw r a) s)"
  by (auto split: option.split prod.split)

lemma internalDrawPath_result:
  "internalDrawPath env clip paint m path style s = s \<or>
   (\<exists>r a. internalDrawPath env clip paint m path style s = emit (PathRendererDraw r a) s)"
proof (cases "wasAbandoned s")
  case True
  then show ?thesis by (simp add: internalDrawPath_def)
next
  case False
  note live = False
  show ?thesis
  proof (cases "shapeIsEmpty (pathOps env) (GrShape_make path style)")
    case True
    then show ?thesis using live by (simp add: internalDrawPath_def Let_def)
  next
    case False
    show ?thesis
      unfolding internalDrawPath_def Let_def using live False
      apply (simp split del: if_split cong: if_cong)
      apply (rule renderer_tail)
      done
  qed
qed

lemma internalDrawPath_no_nested:
  "filter isNestedRectsEvent (submitted (internalDrawPath env clip paint m path style s)) =
   filter isNestedRectsEvent (submitted s)"
  using internalDrawPath_result [of env clip paint m path style s]
  by (auto simp add: emit_def)

lemma onTarget_no_nested:
  "(\<And>h. \<not> isNestedRectsEvent (ev h)) \<Longrightarrow>
   filter isNestedRectsEvent (submitted (onTarget ev s)) = filter isNestedRectsEvent (submitted s)"
  using onTarget_submitted [of ev s] by auto

lemma drawPath_passes:
  assumes "\<not> wasAbandoned s" and "\<not> SkPath_isEmpty path"
    and "isAntiAlias paint" and "\<not> isUnifiedMultisampled (fRenderTarget env)"
    and "isSimpleFill style" and "\<not> isConvex (pathOps env) path"
    and "fills_as_nested_rects env viewMatrix path = Some rects"
  shows "drawPath env clip paint viewMatrix path style s =
           acf_exit (case CreateAAFillNestedRects env (getColor paint) viewMatrix rects of
                       Some batch \<Rightarrow>
                         onTarget (\<lambda>h. DrawBatch h (GrPipelineBuilder_make paint False) clip batch) s
                     | None \<Rightarrow> s)"
proof -
  have aa: "should_apply_coverage_aa paint (fRenderTarget env) = (True, False)"
    using assms(3,4) by (simp add: should_apply_coverage_aa_def)
  have pe: "pathEffect style = None" using assms(5) by (simp add: isSimpleFill_def)
  show ?thesis using assms(1,2,5,6,7) aa pe by (simp add: drawPath_def)
qed

text \<open>Claim C4, as the code has it. Let \<open>drawPath\<close> be called on a live context with a
  non-empty path, coverage antialiasing applying, a simple-fill style, and a concave path that is
  two nested rects \<open>outer\<close> and \<open>inner\<close>. The margins \<open>m0 .. m3\<close> (left, top, right, bottom) are
  the ones the code computes: the absolute value of the single-precision difference of the two
  coordinates, in the path's own coordinates.
  The nested-rect test passes exactly when the path is not inverse-filled, the view matrix keeps
  rects axis-aligned, the two rects are not wound the same way under a winding fill, and the
  margins are either all at least 1 or each within the tolerance \<open>SK_ScalarNearlyZero\<close> of the
  left one.
  When it passes, the nested-rect factory is asked and the general path renderer is not: the
  factory's batch is what is submitted, and nothing is when it makes none.
  When it does not pass, the call submits no nested-rect batch.\<close>

theorem drawPath_nested_rects:
  fixes env :: Env and clip paint viewMatrix path style s outer inner d0 d1
  defines "m0 \<equiv> \<bar>SkScalar_sub (fLeft outer) (fLeft inner)\<bar>"
    and "m1 \<equiv> \<bar>SkScalar_sub (fTop outer) (fTop inner)\<bar>"
    and "m2 \<equiv> \<bar>SkScalar_sub (fRight outer) (fRight inner)\<bar>"
    and "m3 \<equiv> \<bar>SkScalar_sub (fBottom outer) (fBottom inner)\<bar>"
  defines "passes \<equiv>
      \<not> isInverseFillType path \<and> rectStaysRect (matrixOps env) viewMatrix \<and>
      \<not> (getFillType path = kWinding_FillType \<and> d0 = d1) \<and>
      ((SkScalarNearlyEqual m0 m1 \<and> SkScalarNearlyEqual m0 m2 \<and> SkScalarNearlyEqual m0 m3) \<or>
       (1 \<le> m0 \<and> 1 \<le> m1 \<and> 1 \<le> m2 \<and> 1 \<le> m3))"
  assumes "\<not> wasAbandoned s" and "\<not> SkPath_isEmpty path"
    and "isAntiAlias paint" and "\<not> isUnifiedMultisampled (fRenderTarget env)"
    and "isSimpleFill style" and "\<not> isConvex (pathOps env) path"
    and "isNestedFillRects (pathOps env) path = Some ((outer, inner), (d0, d1))"
  shows "(passes \<longrightarrow>
            fills_as_nested_rects env viewMatrix path = Some (outer, inner) \<and>
            drawPath env clip paint viewMatrix path style s =
              acf_exit (case CreateAAFillNestedRects env (getColor paint) viewMatrix (outer, inner) of
                          Some batch \<Rightarrow>
                            onTarget (\<lambda>h. DrawBatch h (GrPipelineBuilder_make paint False) clip batch) s
                        | None \<Rightarrow> s)) \<and>
         (\<not> passes \<longrightarrow>
            fills_as_nested_rects env viewMatrix path = None \<and>
            filter isNestedRectsEvent (submitted (drawPath env clip paint viewMatrix path style s)) =
              filter isNestedRectsEvent (submitted s))"
proof (intro conjI impI)
  note nested = \<open>isNestedFillRects (pathOps env) path = Some ((outer, inner), (d0, d1))\<close>
  note f = fills_as_nested_rects_eq [OF nested, of viewMatrix, folded m0_def m1_def m2_def m3_def]
  have aa: "should_apply_coverage_aa paint (fRenderTarget env) = (True, False)"
    using \<open>isAntiAlias paint\<close> \<open>\<not> isUnifiedMultisampled (fRenderTarget env)\<close>
    by (simp add: should_apply_coverage_aa_def)
  have pe: "pathEffect style = None" using \<open>isSimpleFill style\<close> by (simp add: isSimpleFill_def)
  note ctx = \<open>\<not> wasAbandoned s\<close> \<open>\<not> SkPath_isEmpty path\<close> \<open>isSimpleFill style\<close>
    \<open>\<not> isConvex (pathOps env) path\<close>
  {
    assume a: passes
    show n: "fills_as_nested_rects env viewMatrix path = Some (outer, inner)"
      using a unfolding passes_def by (simp add: f)
    show "drawPath env clip paint viewMatrix path style s =
              acf_exit (case CreateAAFillNestedRects env (getColor paint) viewMatrix (outer, inner) of
                          Some batch \<Rightarrow>
                            onTarget (\<lambda>h. DrawBatch h (GrPipelineBuilder_make paint False) clip batch) s
                        | None \<Rightarrow> s)"
      using ctx aa pe n by (simp add: drawPath_def)
  }
  {
    assume b: "\<not> passes"
    show n: "fills_as_nested_rects env viewMatrix path = None"
      using b unfolding passes_def by (auto simp add: f)
    have d: "drawPath env clip paint viewMatrix path style s =
       acf_exit (case (case isOval (pathOps env) path of
                         Some ovalRect \<Rightarrow>
                           if \<not> isInverseFillType path then
                             (case CreateOvalBatch env (getColor paint) viewMatrix ovalRect
                                     (strokeRec style) of
                                Some batch \<Rightarrow>
                                  Some (onTarget (\<lambda>h. DrawBatch h
                                          (GrPipelineBuilder_make paint False) clip batch) s)
                              | None \<Rightarrow> None)
                           else None
                       | None \<Rightarrow> None) of
                   Some finished \<Rightarrow> finished
                 | None \<Rightarrow> internalDrawPath env clip paint viewMatrix path style s)"
      using ctx aa pe n by (simp add: drawPath_def)
    show "filter isNestedRectsEvent (submitted (drawPath env clip paint viewMatrix path style s)) =
              filter isNestedRectsEvent (submitted s)"
      unfolding d
      by (auto simp add: internalDrawPath_no_nested CreateOvalBatch_def onTarget_no_nested
            split: option.splits if_splits)
  }
qed

text \<open>Claim C4 as stated fails on both sides. Two nested rects with opposite winding and a
  uniform margin of 2 go to the general path renderer when the view matrix is a rotation by 45
  degrees, and also when the path is inverse-filled. And margins of \<open>1/2\<close>, \<open>1/2\<close>, \<open>1/2\<close> and
  \<open>1/2 + 1/8192\<close>, non-uniform and all below 1, do select the nested-rect batch: they are equal
  up to the tolerance. All coordinates are floats.\<close>

theorem drawPath_nested_rects_counterexample:
  "submitted (drawPath refEnv GrNoClip aaPaint rot45
      (nestedRects (SkRect_MakeLTRB 0 0 20 20) kCW_Direction (SkRect_MakeLTRB 2 2 18 18)
         kCCW_Direction kWinding_FillType) GrStyle_SimpleFill freshContext) =
     [PathRendererDraw 1 \<lparr> dpPaint = aaPaint, dpUserStencilSettings = None, dpClip = GrNoClip,
        dpViewMatrix = rot45,
        dpShape = GrShape_make (nestedRects (SkRect_MakeLTRB 0 0 20 20) kCW_Direction
           (SkRect_MakeLTRB 2 2 18 18) kCCW_Direction kWinding_FillType) GrStyle_SimpleFill,
        dpAntiAlias = True \<rparr>] \<and>
   submitted (drawPath refEnv GrNoClip aaPaint SkMatrix_I
      (nestedRects (SkRect_MakeLTRB 0 0 20 20) kCW_Direction (SkRect_MakeLTRB 2 2 18 18)
         kCCW_Direction kInverseWinding_FillType) GrStyle_SimpleFill freshContext) =
     [PathRendererDraw 1 \<lparr> dpPaint = aaPaint, dpUserStencilSettings = None, dpClip = GrNoClip,
        dpViewMatrix = SkMatrix_I,
        dpShape = GrShape_make (nestedRects (SkRect_MakeLTRB 0 0 20 20) kCW_Direction
           (SkRect_MakeLTRB 2 2 18 18) kCCW_Direction kInverseWinding_FillType) GrStyle_SimpleFill,
        dpAntiAlias = True \<rparr>] \<and>
   submitted (drawPath refEnv GrNoClip aaPaint SkMatrix_I
      (nestedRects (SkRect_MakeLTRB 0 0 20 20) kCW_Direction
         (SkRect_MakeLTRB (1/2) (1/2) (39/2) (159743/8192)) kCCW_Direction kWinding_FillType)
      GrStyle_SimpleFill freshContext) =
     [DrawBatch 0 (GrPipelineBuilder_make aaPaint False) GrNoClip
        (AAFillNestedRectsBatch 5 SkMatrix_I (SkRect_MakeLTRB 0 0 20 20)
           (SkRect_MakeLTRB (1/2) (1/2) (39/2) (159743/8192)))]"
proof -
  let ?p = "nestedRects (SkRect_MakeLTRB 0 0 20 20) kCW_Direction
         (SkRect_MakeLTRB (1/2) (1/2) (39/2) (159743/8192)) kCCW_Direction kWinding_FillType"
  have n: "isNestedFillRects (pathOps refEnv) ?p =
      Some ((SkRect_MakeLTRB 0 0 20 20, SkRect_MakeLTRB (1/2) (1/2) (39/2) (159743/8192)),
            (kCW_Direction, kCCW_Direction))"
    by (simp add: refEnv_def refPathOps_def nestedRects_def rectContains_def SkRect_isEmpty_def
          SkRect_MakeLTRB_def)
  have margins: "SkScalar_sub 0 (1/2) = - (1/2)" "SkScalar_sub 20 (39/2) = 1/2"
    "SkScalar_sub 20 (159743/8192) = 4097/8192" "SkScalar_sub (1/2) (1/2) = 0"
    "SkScalar_sub (1/2) (4097/8192) = - (1/8192)"
    by (simp_all add: float_defs)
  have f: "fills_as_nested_rects refEnv SkMatrix_I ?p =
      Some (SkRect_MakeLTRB 0 0 20 20, SkRect_MakeLTRB (1/2) (1/2) (39/2) (159743/8192))"
    apply (subst fills_as_nested_rects_eq [OF n])
    apply (simp add: SkRect_MakeLTRB_def isInverseFillType_def nestedRects_def ref_defs
             SkScalarNearlyEqual_def SK_ScalarNearlyZero_def margins)
    done
  have live: "\<not> wasAbandoned freshContext" by (simp add: freshContext_def GrDrawContext_new_def)
  have ne: "\<not> SkPath_isEmpty ?p" by (simp add: SkPath_isEmpty_def nestedRects_def)
  have aa: "isAntiAlias aaPaint" by (simp add: aaPaint_def)
  have ms: "\<not> isUnifiedMultisampled (fRenderTarget refEnv)" by (simp add: refEnv_def)
  have sf: "isSimpleFill GrStyle_SimpleFill"
    by (simp add: isSimpleFill_def isFillStyle_def GrStyle_SimpleFill_def)
  have cv: "\<not> isConvex (pathOps refEnv) ?p"
    by (simp add: refEnv_def refPathOps_def nestedRects_def)
  have 3: "submitted (drawPath refEnv GrNoClip aaPaint SkMatrix_I ?p GrStyle_SimpleFill freshContext) =
     [DrawBatch 0 (GrPipelineBuilder_make aaPaint False) GrNoClip
        (AAFillNestedRectsBatch 5 SkMatrix_I (SkRect_MakeLTRB 0 0 20 20)
           (SkRect_MakeLTRB (1/2) (1/2) (39/2) (159743/8192)))]"
    unfolding drawPath_passes [OF live ne aa ms sf cv f]
    by (simp add: CreateAAFillNestedRects_def target_defs ref_defs)
  have 12: "submitted (drawPath refEnv GrNoClip aaPaint rot45
      (nestedRects (SkRect_MakeLTRB 0 0 20 20) kCW_Direction (SkRect_MakeLTRB 2 2 18 18)
         kCCW_Direction kWinding_FillType) GrStyle_SimpleFill freshContext) =
     [PathRendererDraw 1 \<lparr> dpPaint = aaPaint, dpUserStencilSettings = None, dpClip = GrNoClip,
        dpViewMatrix = rot45,
        dpShape = GrShape_make (nestedRects (SkRect_MakeLTRB 0 0 20 20) kCW_Direction
           (SkRect_MakeLTRB 2 2 18 18) kCCW_Direction kWinding_FillType) GrStyle_SimpleFill,
        dpAntiAlias = True \<rparr>] \<and>
   submitted (drawPath refEnv GrNoClip aaPaint SkMatrix_I
      (nestedRects (SkRect_MakeLTRB 0 0 20 20) kCW_Direction (SkRect_MakeLTRB 2 2 18 18)
         kCCW_Direction kInverseWinding_FillType) GrStyle_SimpleFill freshContext) =
     [PathRendererDraw 1 \<lparr> dpPaint = aaPaint, dpUserStencilSettings = None, dpClip = GrNoClip,
        dpViewMatrix = SkMatrix_I,
        dpShape = GrShape_make (nestedRects (SkRect_MakeLTRB 0 0 20 20) kCW_Direction
           (SkRect_MakeLTRB 2 2 18 18) kCCW_Direction kInverseWinding_FillType) GrStyle_SimpleFill,
        dpAntiAlias = True \<rparr>]"
    by (simp add: path_defs margin_loop_unrolled geom_defs target_defs ref_defs draw_defs)
  from 12 3 show ?thesis by simp
qed

text \<open>The theorem at three paths under the identity matrix. A uniform margin of 2 selects the
  nested-rect batch. So do the rects \<open>(2^-30, 0, 20, 20)\<close> and \<open>(1, 2, 17, 16)\<close>: the left
  margin \<open>1 - 2^-30\<close> is not a float and rounds to 1, so that all four margins are at least 1.
  Margins of 2, 2, 2 and \<open>1/2\<close> do not pass.\<close>

theorem drawPath_nested_rects_witness:
  "submitted (drawPath refEnv GrNoClip aaPaint SkMatrix_I
      (nestedRects (SkRect_MakeLTRB 0 0 20 20) kCW_Direction (SkRect_MakeLTRB 2 2 18 18)
         kCCW_Direction kWinding_FillType) GrStyle_SimpleFill freshContext) =
     [DrawBatch 0 (GrPipelineBuilder_make aaPaint False) GrNoClip
        (AAFillNestedRectsBatch 5 SkMatrix_I (SkRect_MakeLTRB 0 0 20 20) (SkRect_MakeLTRB 2 2 18 18))] \<and>
   submitted (drawPath refEnv GrNoClip aaPaint SkMatrix_I
      (nestedRects (SkRect_MakeLTRB (1 / 2 ^ 30) 0 20 20) kCW_Direction (SkRect_MakeLTRB 1 2 17 16)
         kCCW_Direction kWinding_FillType) GrStyle_SimpleFill freshContext) =
     [DrawBatch 0 (GrPipelineBuilder_make aaPaint False) GrNoClip
        (AAFillNestedRectsBatch 5 SkMatrix_I (SkRect_MakeLTRB (1 / 2 ^ 30) 0 20 20)
           (SkRect_MakeLTRB 1 2 17 16))] \<and>
   fills_as_nested_rects refEnv SkMatrix_I
      (nestedRects (SkRect_MakeLTRB 0 0 20 20) kCW_Direction (SkRect_MakeLTRB 2 2 18 (39/2))
         kCCW_Direction kWinding_FillType) = None \<and>
   filter isNestedRectsEvent (submitted (drawPath refEnv GrNoClip aaPaint SkMatrix_I
      (nestedRects (SkRect_MakeLTRB 0 0 20 20) kCW_Direction (SkRect_MakeLTRB 2 2 18 (39/2))
         kCCW_Direction kWinding_FillType) GrStyle_SimpleFill freshContext)) = []"
proof -
  let ?p1 = "nestedRects (SkRect_MakeLTRB 0 0 20 20) kCW_Direction (SkRect_MakeLTRB 2 2 18 18)
         kCCW_Direction kWinding_FillType"
  let ?p2 = "nestedRects (SkRect_MakeLTRB 0 0 20 20) kCW_Direction (SkRect_MakeLTRB 2 2 18 (39/2))
         kCCW_Direction kWinding_FillType"
  let ?p3 = "nestedRects (SkRect_MakeLTRB (1 / 2 ^ 30) 0 20 20) kCW_Direction
         (SkRect_MakeLTRB 1 2 17 16) kCCW_Direction kWinding_FillType"
  have live: "\<not> wasAbandoned freshContext" by (simp add: freshContext_def GrDrawContext_new_def)
  have ne: "\<not> SkPath_isEmpty ?p1" "\<not> SkPath_isEmpty ?p2" "\<not> SkPath_isEmpty ?p3"
    by (simp_all add: SkPath_isEmpty_def nestedRects_def)
  have aa: "isAntiAlias aaPaint" by (simp add: aaPaint_def)
  have ms: "\<not> isUnifiedMultisampled (fRenderTarget refEnv)" by (simp add: refEnv_def)
  have sf: "isSimpleFill GrStyle_SimpleFill"
    by (simp add: isSimpleFill_def isFillStyle_def GrStyle_SimpleFill_def)
  have cv: "\<not> isConvex (pathOps refEnv) ?p1" "\<not> isConvex (pathOps refEnv) ?p2"
    "\<not> isConvex (pathOps refEnv) ?p3"
    by (simp_all add: refEnv_def refPathOps_def nestedRects_def)
  have n1: "isNestedFillRects (pathOps refEnv) ?p1 =
      Some ((SkRect_MakeLTRB 0 0 20 20, SkRect_MakeLTRB 2 2 18 18), (kCW_Direction, kCCW_Direction))"
    by (simp add: refEnv_def refPathOps_def nestedRects_def rectContains_def SkRect_isEmpty_def
          SkRect_MakeLTRB_def)
  have n2: "isNestedFillRects (pathOps refEnv) ?p2 =
      Some ((SkRect_MakeLTRB 0 0 20 20, SkRect_MakeLTRB 2 2 18 (39/2)),
            (kCW_Direction, kCCW_Direction))"
    by (simp add: refEnv_def refPathOps_def nestedRects_def rectContains_def SkRect_isEmpty_def
          SkRect_MakeLTRB_def)
  have n3: "isNestedFillRects (pathOps refEnv) ?p3 =
      Some ((SkRect_MakeLTRB (1 / 2 ^ 30) 0 20 20, SkRect_MakeLTRB 1 2 17 16),
            (kCW_Direction, kCCW_Direction))"
    by (simp add: refEnv_def refPathOps_def nestedRects_def rectContains_def SkRect_isEmpty_def
          SkRect_MakeLTRB_def)
  have rs: "rectStaysRect (matrixOps refEnv) SkMatrix_I"
    by (simp add: refEnv_def refMatrixOps_def SkMatrix_I_def)
  have inv: "\<not> isInverseFillType ?p1" "\<not> isInverseFillType ?p3"
    by (simp_all add: isInverseFillType_def nestedRects_def)
  have A: "drawPath refEnv GrNoClip aaPaint SkMatrix_I ?p1 GrStyle_SimpleFill freshContext =
      acf_exit (case CreateAAFillNestedRects refEnv (getColor aaPaint) SkMatrix_I
                       (SkRect_MakeLTRB 0 0 20 20, SkRect_MakeLTRB 2 2 18 18) of
                  Some batch \<Rightarrow>
                    onTarget (\<lambda>h. DrawBatch h (GrPipelineBuilder_make aaPaint False) GrNoClip batch)
                      freshContext
                | None \<Rightarrow> freshContext)"
    using drawPath_nested_rects [where clip = GrNoClip and viewMatrix = SkMatrix_I,
            OF live ne(1) aa ms sf cv(1) n1,
            THEN conjunct1] rs inv(1)
    by (simp add: SkRect_MakeLTRB_def SkScalarNearlyEqual_def SK_ScalarNearlyZero_def float_defs)
  have 1: "submitted (drawPath refEnv GrNoClip aaPaint SkMatrix_I ?p1 GrStyle_SimpleFill freshContext) =
     [DrawBatch 0 (GrPipelineBuilder_make aaPaint False) GrNoClip
        (AAFillNestedRectsBatch 5 SkMatrix_I (SkRect_MakeLTRB 0 0 20 20) (SkRect_MakeLTRB 2 2 18 18))]"
    unfolding A
    by (simp add: CreateAAFillNestedRects_def target_defs ref_defs)
  have C: "drawPath refEnv GrNoClip aaPaint SkMatrix_I ?p3 GrStyle_SimpleFill freshContext =
      acf_exit (case CreateAAFillNestedRects refEnv (getColor aaPaint) SkMatrix_I
                       (SkRect_MakeLTRB (1 / 2 ^ 30) 0 20 20, SkRect_MakeLTRB 1 2 17 16) of
                  Some batch \<Rightarrow>
                    onTarget (\<lambda>h. DrawBatch h (GrPipelineBuilder_make aaPaint False) GrNoClip batch)
                      freshContext
                | None \<Rightarrow> freshContext)"
    using drawPath_nested_rects [where clip = GrNoClip and viewMatrix = SkMatrix_I,
            OF live ne(3) aa ms sf cv(3) n3,
            THEN conjunct1] rs inv(2)
    by (simp add: SkRect_MakeLTRB_def SkScalarNearlyEqual_def SK_ScalarNearlyZero_def float_defs)
  have 3: "submitted (drawPath refEnv GrNoClip aaPaint SkMatrix_I ?p3 GrStyle_SimpleFill freshContext) =
     [DrawBatch 0 (GrPipelineBuilder_make aaPaint False) GrNoClip
        (AAFillNestedRectsBatch 5 SkMatrix_I (SkRect_MakeLTRB (1 / 2 ^ 30) 0 20 20)
           (SkRect_MakeLTRB 1 2 17 16))]"
    unfolding C
    by (simp add: CreateAAFillNestedRects_def target_defs ref_defs)
  have B: "fills_as_nested_rects refEnv SkMatrix_I ?p2 = None \<and>
      filter isNestedRectsEvent (submitted (drawPath refEnv GrNoClip aaPaint SkMatrix_I ?p2
         GrStyle_SimpleFill freshContext)) = filter isNestedRectsEvent (submitted freshContext)"
    using drawPath_nested_rects [where clip = GrNoClip and viewMatrix = SkMatrix_I,
            OF live ne(2) aa ms sf cv(2) n2,
            THEN conjunct2]
    by (simp add: SkRect_MakeLTRB_def SkScalarNearlyEqual_def SK_ScalarNearlyZero_def float_defs)
  from 1 3 B show ?thesis by (simp add: freshContext_def GrDrawContext_new_def)
qed


section \<open>The draw-target invariant\<close>

lemma consistent_emit [simp]: "consistent (emit e s) = consistent s"
  by (simp add: consistent_def validate_def closedWereIssued_def emit_def isClosed_def
        split: option.splits)

lemma consistent_acf_exit [simp]: "consistent (acf_exit s) = consistent s"
  by (simp add: consistent_def validate_def closedWereIssued_def acf_exit_def isClosed_def
        split: option.splits)

lemma consistent_text [simp]: "consistent (s\<lparr> fAtlasTextContext := b \<rparr>) = consistent s"
  by (simp add: consistent_def validate_def closedWereIssued_def isClosed_def
        split: option.splits)

lemma getDrawTarget_consistent:
  assumes "consistent s" and "getDrawTarget s = (h, s')"
  shows "consistent s'" and "\<not> isClosed s' h" and "fDrawTarget s' = Some h"
  using assms
  by (fastforce simp add: consistent_def validate_def closedWereIssued_def getDrawTarget_def
        newDrawTarget_def isClosed_def less_Suc_eq split: option.splits if_splits)+

lemma consistent_snd_getDrawTarget: "consistent s \<Longrightarrow> consistent (snd (getDrawTarget s))"
  using getDrawTarget_consistent(1) [of s] by (cases "getDrawTarget s") auto

lemma consistent_onTarget: "consistent s \<Longrightarrow> consistent (onTarget ev s)"
  using getDrawTarget_consistent(1) [of s] by (cases "getDrawTarget s") (auto simp: onTarget_def)

lemma consistent_discard: "consistent s \<Longrightarrow> consistent (discard s)"
  by (simp add: discard_def consistent_onTarget)

lemma consistent_internalDrawPath:
  "consistent s \<Longrightarrow> consistent (internalDrawPath env clip paint m path style s)"
  using internalDrawPath_result [of env clip paint m path style s] by auto

lemma consistent_drawNonAAFilledRect:
  "consistent s \<Longrightarrow> consistent (drawNonAAFilledRect env clip paint m rect lr lm ss s)"
  by (simp add: drawNonAAFilledRect_def consistent_onTarget)

lemma consistent_drawBatch: "consistent s \<Longrightarrow> consistent (drawBatch pb clip batch s)"
  by (simp add: drawBatch_def consistent_onTarget)

lemmas consistent_intros = consistent_onTarget consistent_discard consistent_internalDrawPath
  consistent_drawNonAAFilledRect consistent_drawBatch consistent_snd_getDrawTarget

lemma consistent_drawFilledRect:
  "consistent s \<Longrightarrow> consistent (snd (drawFilledRect env clip paint m rect ss s))"
  unfolding drawFilledRect_def Let_def
  by (auto split: option.splits prod.splits dest: getDrawTarget_consistent(1)
        intro!: consistent_intros)

lemma consistent_drawRRect:
  "consistent s \<Longrightarrow> consistent (drawRRect env clip paint m rrect style s)"
  unfolding drawRRect_def Let_def
  by (auto split: option.splits prod.splits dest: getDrawTarget_consistent(1)
        intro!: consistent_intros)

lemma consistent_drawOval:
  "consistent s \<Longrightarrow> consistent (drawOval env clip paint m oval style s)"
  unfolding drawOval_def Let_def
  by (auto split: option.splits prod.splits dest: getDrawTarget_consistent(1)
        intro!: consistent_intros)

lemma consistent_drawRect_fill_no_clear:
  assumes "useDrawInsteadOfClear (caps env)"
    and "getStyle (strokeRec (case st of None \<Rightarrow> GrStyle_SimpleFill | Some x \<Rightarrow> x)) = kFill_Style"
    and "consistent s"
  shows "consistent (drawRect env clip paint m rect st s)"
  using assms
  by (subst drawRect.simps)
     (auto simp add: Let_def split: prod.splits bool.splits
        dest: consistent_drawFilledRect [of _ env clip paint m rect None]
        intro!: consistent_intros)


lemma consistent_clear:
  assumes "consistent s"
  shows "consistent (clear env rect color canIgnoreRect s)"
  using assms
  by (subst clear.simps)
     (auto simp add: Let_def GrStyle_SimpleFill_def split: option.splits
        intro!: consistent_drawRect_fill_no_clear consistent_intros)

lemma consistent_drawRect_fill:
  assumes "getStyle (strokeRec (case st of None \<Rightarrow> GrStyle_SimpleFill | Some x \<Rightarrow> x)) = kFill_Style"
    and "consistent s"
  shows "consistent (drawRect env clip paint m rect st s)"
proof (cases "useDrawInsteadOfClear (caps env)")
  case True
  then show ?thesis using assms by (rule consistent_drawRect_fill_no_clear)
next
  case False
  then show ?thesis using assms
    by (subst drawRect.simps)
       (auto simp add: Let_def split: prod.splits bool.splits option.splits
          dest: consistent_drawFilledRect [of _ env clip paint m rect None]
          intro!: consistent_clear consistent_intros)
qed

lemma consistent_drawRect:
  assumes "consistent s"
  shows "consistent (drawRect env clip paint m rect st s)"
proof (cases "getStyle (strokeRec (case st of None \<Rightarrow> GrStyle_SimpleFill | Some x \<Rightarrow> x)) = kFill_Style")
  case True
  then show ?thesis using assms by (rule consistent_drawRect_fill)
next
  case False
  have fill: "consistent (drawRect env clip paint m r (Some GrStyle_SimpleFill) s)" for r
    using assms by (intro consistent_drawRect_fill) (simp_all add: GrStyle_SimpleFill_def)
  show ?thesis using False assms
    by (subst drawRect.simps)
       (auto simp add: Let_def fill consistent_drawRRect split: prod.splits option.splits
          SkPaint_Join.splits intro!: consistent_intros)
qed

lemma consistent_drawPaint:
  "consistent s \<Longrightarrow> consistent (drawPaint env clip paint m s)"
  unfolding drawPaint_def Let_def
  by (auto split: option.splits intro!: consistent_drawRect consistent_intros)

lemma consistent_drawPath:
  "consistent s \<Longrightarrow> consistent (drawPath env clip paint m path style s)"
  unfolding drawPath_def Let_def
  by (auto split: option.splits prod.splits intro!: consistent_drawPaint consistent_intros)

lemma consistent_copySurface:
  "consistent s \<Longrightarrow> consistent (snd (copySurface env src r p s))"
  unfolding copySurface_def Let_def
  by (auto split: prod.splits dest: getDrawTarget_consistent(1))

lemma consistent_atlasText: "consistent s \<Longrightarrow> consistent (atlasText call s)"
  by (simp add: atlasText_def)

lemma consistent_clearStencilClip:
  "consistent s \<Longrightarrow> consistent (clearStencilClip rect insideClip s)"
  by (simp add: clearStencilClip_def consistent_onTarget)

lemma consistent_stencilPath:
  "consistent s \<Longrightarrow> consistent (stencilPath clip ss hw m path s)"
  by (simp add: stencilPath_def consistent_onTarget)

lemma consistent_stencilRect:
  "consistent s \<Longrightarrow> consistent (stencilRect env clip ss hw m rect s)"
  by (simp add: stencilRect_def consistent_drawFilledRect)

lemma consistent_fillRectToRect:
  "consistent s \<Longrightarrow> consistent (fillRectToRect env clip paint m rect lr s)"
  unfolding fillRectToRect_def Let_def
  by (auto split: option.splits prod.splits dest: getDrawTarget_consistent(1)
        intro!: consistent_intros)

lemma consistent_fillRectWithLocalMatrix:
  "consistent s \<Longrightarrow> consistent (fillRectWithLocalMatrix env clip paint m rect lm s)"
  unfolding fillRectWithLocalMatrix_def Let_def
  by (auto split: option.splits prod.splits dest: getDrawTarget_consistent(1)
        intro!: consistent_intros)

lemma consistent_drawVertices:
  "consistent s \<Longrightarrow> consistent (drawVertices env clip paint m pt pos tex cols idx s)"
  unfolding drawVertices_def Let_def
  by (auto split: option.splits intro!: consistent_intros)

lemma consistent_drawAtlas:
  "consistent s \<Longrightarrow> consistent (drawAtlas env clip paint m n xf tex cols s)"
  by (simp add: drawAtlas_def consistent_onTarget)

lemma consistent_drawImageNine:
  "consistent s \<Longrightarrow> consistent (drawImageNine env clip paint m w h c d s)"
  by (simp add: drawImageNine_def consistent_onTarget)

lemma consistent_drawAndStencilPath_nonempty:
  assumes "\<not> SkPath_isEmpty path" and "consistent s"
  shows "consistent (snd (drawAndStencilPath env clip ss op ic doAA m path s))"
  using assms
  by (subst drawAndStencilPath.simps) (auto simp add: Let_def split: option.splits)

lemma consistent_drawAndStencilRect:
  assumes "consistent s"
  shows "consistent (snd (drawAndStencilRect env clip ss op ic doAA m rect s))"
proof (cases "wasAbandoned s")
  case True
  then show ?thesis using assms by (simp add: drawAndStencilRect_abandoned)
next
  case False
  let ?paint = "GrPaint_default\<lparr> isAntiAlias := doAA, getXPFactory := CoverageSetOpXPFactory op ic \<rparr>"
  let ?path = "addRect rect (setIsVolatile True SkPath_new)"
  obtain b s1 where f: "drawFilledRect env clip ?paint m rect (Some ss) s = (b, s1)"
    by (cases "drawFilledRect env clip ?paint m rect (Some ss) s")
  have c1: "consistent s1"
    using consistent_drawFilledRect [OF assms, of env clip ?paint m rect "Some ss"] f by simp
  obtain r s2 where p: "drawAndStencilPath env clip ss op ic doAA m ?path s1 = (r, s2)"
    by (cases "drawAndStencilPath env clip ss op ic doAA m ?path s1")
  have ne: "\<not> SkPath_isEmpty ?path"
    by (simp add: SkPath_isEmpty_def addRect_def)
  have c2: "consistent s2"
    using consistent_drawAndStencilPath_nonempty [OF ne c1, of env clip ss op ic doAA m] p by simp
  show ?thesis
    using False f p c1 c2
    by (subst drawAndStencilRect.simps) (cases b; simp)
qed

lemma consistent_drawAndStencilPath:
  assumes "consistent s"
  shows "consistent (snd (drawAndStencilPath env clip ss op ic doAA m path s))"
  using assms
  by (subst drawAndStencilPath.simps)
     (auto simp add: Let_def consistent_drawAndStencilRect split: option.splits)

lemma consistent_drawFilledDRRect:
  assumes "consistent s"
  shows "consistent (snd (drawFilledDRRect env clip paint m outer inner s))"
proof -
  obtain h0 s1 where g: "getDrawTarget s = (h0, s1)" by (cases "getDrawTarget s")
  have c1: "consistent s1" using getDrawTarget_consistent(1) [OF assms g] .
  show ?thesis
    unfolding drawFilledDRRect_def Let_def g
    by (simp add: if_distrib [of snd] if_distrib [of consistent] c1 consistent_onTarget
          consistent_fillRectWithLocalMatrix
          split: option.split prod.split split del: if_split cong: if_cong)
qed

lemma consistent_drawDRRect:
  "consistent s \<Longrightarrow> consistent (drawDRRect env clip paint m outer inner s)"
  unfolding drawDRRect_def
  by (auto split: prod.splits bool.splits
        dest: consistent_drawFilledDRRect [of _ env clip paint m outer inner]
        intro!: consistent_intros)


lemma consistent_perform: "consistent s \<Longrightarrow> consistent (perform env call s)"
  by (cases "(env, call, s)" rule: perform.cases)
     (simp_all add: consistent_snd_getDrawTarget consistent_copySurface drawText_def
        drawPosText_def drawTextBlob_def consistent_atlasText consistent_discard consistent_clear
        consistent_drawPaint consistent_drawRect consistent_clearStencilClip
        consistent_stencilPath consistent_stencilRect consistent_drawAndStencilRect
        consistent_drawAndStencilPath consistent_fillRectToRect
        consistent_fillRectWithLocalMatrix consistent_drawVertices consistent_drawAtlas
        consistent_drawRRect consistent_drawDRRect consistent_drawOval consistent_drawImageNine
        consistent_drawPath consistent_internalDrawPath consistent_drawBatch)

text \<open>A newly constructed draw context satisfies the invariant.\<close>

lemma validate_new: "validate (GrDrawContext_new abandoned lastTarget issued closedList)"
  by (simp add: validate_def GrDrawContext_new_def split: option.splits)

text \<open>Claim C9: every operation of the draw context preserves the invariant checked by
  \<open>validate\<close> (the held draw target, when non-null and open, is the render target's last draw
  target), together with the fact that closed targets are targets the manager issued. And
  \<open>getDrawTarget\<close> returns an open target that is then the held one: a fresh target from the
  manager exactly when the held handle is null or closed, and otherwise the held target, with
  the state unchanged.\<close>

theorem draw_target_invariant:
  assumes "validate s" and "closedWereIssued s"
  shows "validate (perform env call s) \<and> closedWereIssued (perform env call s) \<and>
         (case getDrawTarget s of
            (h, s') \<Rightarrow>
              fDrawTarget s' = Some h \<and> \<not> isClosed s' h \<and>
              (if fDrawTarget s = None \<or> (\<exists>held. fDrawTarget s = Some held \<and> isClosed s held)
               then h = fst (newDrawTarget s) \<and>
                    s' = (snd (newDrawTarget s))\<lparr> fDrawTarget := Some h \<rparr> \<and>
                    issuedTargets s' = Suc (issuedTargets s)
               else s' = s))"
proof -
  have c: "consistent s" using assms by (simp add: consistent_def)
  have p: "consistent (perform env call s)" using c by (rule consistent_perform)
  obtain h s' where g: "getDrawTarget s = (h, s')" by (cases "getDrawTarget s")
  have o: "fDrawTarget s' = Some h" "\<not> isClosed s' h"
    using getDrawTarget_consistent(2,3) [OF c g] by simp_all
  have e: "if fDrawTarget s = None \<or> (\<exists>held. fDrawTarget s = Some held \<and> isClosed s held)
           then h = fst (newDrawTarget s) \<and>
                s' = (snd (newDrawTarget s))\<lparr> fDrawTarget := Some h \<rparr> \<and>
                issuedTargets s' = Suc (issuedTargets s)
           else s' = s"
    using g by (auto simp add: getDrawTarget_def newDrawTarget_def split: option.splits if_splits)
  show ?thesis using p o e g by (simp add: consistent_def)
qed

theorem draw_target_invariant_witness:
  "validate staleContext \<and> closedWereIssued staleContext \<and>
   validate (perform refEnv (ClearCall None 5 True) staleContext) \<and>
   closedWereIssued (perform refEnv (ClearCall None 5 True) staleContext) \<and>
   getDrawTarget staleContext =
     (2, staleContext\<lparr> fDrawTarget := Some 2, lastDrawTarget := Some 2, issuedTargets := 3 \<rparr>) \<and>
   getDrawTarget (snd (getDrawTarget staleContext)) =
     (2, staleContext\<lparr> fDrawTarget := Some 2, lastDrawTarget := Some 2, issuedTargets := 3 \<rparr>) \<and>
   perform refEnv (ClearCall None 5 True) staleContext =
     staleContext\<lparr> fDrawTarget := Some 2, lastDrawTarget := Some 2, issuedTargets := 3,
        submitted := [AddBatch 2 (GrClearBatch (SkIRect_MakeWH 100 100) 5)], flushChecks := 1 \<rparr>"
proof -
  have v: "validate staleContext"
    by (simp add: validate_def staleContext_def freshContext_def GrDrawContext_new_def isClosed_def)
  have c: "closedWereIssued staleContext"
    by (simp add: closedWereIssued_def staleContext_def freshContext_def GrDrawContext_new_def)
  have g: "getDrawTarget staleContext =
     (2, staleContext\<lparr> fDrawTarget := Some 2, lastDrawTarget := Some 2, issuedTargets := 3 \<rparr>)"
    by (simp add: target_defs staleContext_def freshContext_def GrDrawContext_new_def)
  have g2: "getDrawTarget (snd (getDrawTarget staleContext)) =
     (2, staleContext\<lparr> fDrawTarget := Some 2, lastDrawTarget := Some 2, issuedTargets := 3 \<rparr>)"
    by (simp add: target_defs staleContext_def freshContext_def GrDrawContext_new_def)
  have e: "perform refEnv (ClearCall None 5 True) staleContext =
     staleContext\<lparr> fDrawTarget := Some 2, lastDrawTarget := Some 2, issuedTargets := 3,
        submitted := [AddBatch 2 (GrClearBatch (SkIRect_MakeWH 100 100) 5)], flushChecks := 1 \<rparr>"
    by (simp add: clear.simps geom_defs target_defs ref_defs staleContext_def)
  from draw_target_invariant [OF v c, of refEnv "ClearCall None 5 True"]
  have "validate (perform refEnv (ClearCall None 5 True) staleContext) \<and>
        closedWereIssued (perform refEnv (ClearCall None 5 True) staleContext)"
    by simp
  then show ?thesis using v c g g2 e by simp
qed

end
